theory Spec2Isabelle
  imports Complex_Main
begin

section \<open>Python strings and errors\<close>

text \<open>
  A Python \<open>str\<close> is a \<^typ>\<open>string\<close>.  The methods that look at what a character
  is (\<open>strip\<close>, \<open>capitalize\<close>, \<open>int\<close>) are modelled on ASCII text, where they are
  exactly Python's; on other characters Python follows the Unicode tables, which are not
  modelled, and every statement that depends on these methods is made for ASCII text
  (\<open>is_ascii\<close>).  Every exception the modelled functions can raise is a value of
  \<open>py_error\<close>, returned as \<open>Inl\<close>.
\<close>

datatype py_error =
    IndexError
  | ValueError
  | OverflowError
  | AttributeError
  | RuntimeError string
  | OSError
  | IsADirectoryError
  | PermissionError
  | UnidentifiedImageError
  | ImportError
  | ModelError
  | YAMLError

definition backslash :: string where
  "backslash = [CHR 0x5C]"

definition newline :: string where
  "newline = [CHR 0x0A]"

definition dquote :: string where
  "dquote = [CHR 0x22]"

text \<open>\<open>sep.join(xs)\<close>\<close>

fun py_join :: "string \<Rightarrow> string list \<Rightarrow> string" where
  "py_join sep [] = []"
| "py_join sep [x] = x"
| "py_join sep (x # y # ys) = x @ sep @ py_join sep (y # ys)"

text \<open>\<open>l[-1]\<close>: raises IndexError on the empty list.\<close>

definition py_last :: "'a list \<Rightarrow> py_error + 'a" where
  "py_last l = (if l = [] then Inl IndexError else Inr (last l))"

section \<open>build.py: convert_list\<close>

text \<open>
  \<^verbatim>\<open>
  def convert_list(l: list) -> str:
      l = [str(i) for i in l]
      if len(l) == 1:
          return l[0]
      elif len(l) == 2:
          return f"{l[0]} and {l[1]}"
      else:
          return ", ".join(l[:-1]) + f", and {l[-1]}"
  \<close>
  The elements are strings already, so \<open>str(i)\<close> is the identity.  \<open>l[:-1]\<close> is
  \<^const>\<open>butlast\<close> (the empty list for the empty list, as in Python).
\<close>

definition convert_list :: "string list \<Rightarrow> py_error + string" where
  "convert_list l =
     (if length l = 1 then Inr (l ! 0)
      else if length l = 2 then Inr (l ! 0 @ '' and '' @ l ! 1)
      else (case py_last l of
              Inl e \<Rightarrow> Inl e
            | Inr z \<Rightarrow> Inr (py_join '', '' (butlast l) @ '', and '' @ z)))"

text \<open>
  The list formatting as the specification words it: one item is itself, two items are
  joined by "and", three or more are separated by commas with "and" before the last.
\<close>

fun oxford_tail :: "string list \<Rightarrow> string" where
  "oxford_tail [] = []"
| "oxford_tail [z] = ''and '' @ z"
| "oxford_tail (x # y # ys) = x @ '', '' @ oxford_tail (y # ys)"

fun natural_list :: "string list \<Rightarrow> string" where
  "natural_list [] = []"
| "natural_list [a] = a"
| "natural_list [a, b] = a @ '' and '' @ b"
| "natural_list (a # b # c # cs) = a @ '', '' @ oxford_tail (b # c # cs)"

section \<open>Python string methods\<close>

definition is_ascii :: "string \<Rightarrow> bool" where
  "is_ascii s \<longleftrightarrow> list_all (\<lambda>c. \<not> digit7 c) s"

text \<open>\<open>c.isspace()\<close> on ASCII: tab, line feed, vertical tab, form feed, carriage
  return, the four separators 0x1C..0x1F and the space.\<close>

definition py_isspace :: "char \<Rightarrow> bool" where
  "py_isspace c \<longleftrightarrow>
     c \<in> set [CHR 0x09, CHR 0x0A, CHR 0x0B, CHR 0x0C, CHR 0x0D,
              CHR 0x1C, CHR 0x1D, CHR 0x1E, CHR 0x1F, CHR 0x20]"

text \<open>\<open>s.strip()\<close>\<close>

definition py_strip :: "string \<Rightarrow> string" where
  "py_strip s = rev (dropWhile py_isspace (rev (dropWhile py_isspace s)))"

text \<open>\<open>s.endswith(suf)\<close> and \<open>s.removesuffix(suf)\<close>\<close>

definition py_endswith :: "string \<Rightarrow> string \<Rightarrow> bool" where
  "py_endswith suf s \<longleftrightarrow>
     length suf \<le> length s \<and> drop (length s - length suf) s = suf"

definition py_removesuffix :: "string \<Rightarrow> string \<Rightarrow> string" where
  "py_removesuffix suf s =
     (if suf \<noteq> [] \<and> py_endswith suf s then take (length s - length suf) s else s)"

definition ascii_lowercase :: string where
  "ascii_lowercase = ''abcdefghijklmnopqrstuvwxyz''"

definition ascii_uppercase :: string where
  "ascii_uppercase = ''ABCDEFGHIJKLMNOPQRSTUVWXYZ''"

definition py_upper_char :: "char \<Rightarrow> char" where
  "py_upper_char c =
     (case map_of (zip ascii_lowercase ascii_uppercase) c of Some u \<Rightarrow> u | None \<Rightarrow> c)"

definition py_lower_char :: "char \<Rightarrow> char" where
  "py_lower_char c =
     (case map_of (zip ascii_uppercase ascii_lowercase) c of Some l \<Rightarrow> l | None \<Rightarrow> c)"

text \<open>\<open>s.capitalize()\<close>: the first character upper-cased, every other character
  lower-cased.\<close>

definition py_capitalize :: "string \<Rightarrow> string" where
  "py_capitalize s =
     (case s of [] \<Rightarrow> [] | c # cs \<Rightarrow> py_upper_char c # map py_lower_char cs)"

text \<open>
  \<open>int(s)\<close> for an ASCII string.  The whitespace that \<open>int\<close> skips at both ends is
  C's \<open>isspace\<close> (tab, line feed, vertical tab, form feed, carriage return, space): the
  separators 0x1C..0x1F, which \<open>strip\<close> removes, are not skipped.  One sign is allowed,
  the digits may be grouped by single underscores, and a literal of more than
  \<open>sys.int_max_str_digits\<close> digits (4300 unless the interpreter is configured otherwise,
  leading zeros counted) is refused.  Every refusal is a ValueError: \<open>None\<close> here,
  turned into the error by the caller.
\<close>

definition int_isspace :: "char \<Rightarrow> bool" where
  "int_isspace c \<longleftrightarrow>
     c \<in> set [CHR 0x09, CHR 0x0A, CHR 0x0B, CHR 0x0C, CHR 0x0D, CHR 0x20]"

definition int_max_str_digits :: nat where
  "int_max_str_digits = 4300"

definition digit_val :: "char \<Rightarrow> nat option" where
  "digit_val c =
     map_of [(CHR ''0'', 0), (CHR ''1'', 1), (CHR ''2'', 2), (CHR ''3'', 3), (CHR ''4'', 4),
             (CHR ''5'', 5), (CHR ''6'', 6), (CHR ''7'', 7), (CHR ''8'', 8), (CHR ''9'', 9)] c"

fun parse_dec :: "bool \<Rightarrow> nat \<Rightarrow> string \<Rightarrow> nat option" where
  "parse_dec after_digit acc [] = (if after_digit then Some acc else None)"
| "parse_dec after_digit acc (c # cs) =
     (case digit_val c of
        Some d \<Rightarrow> parse_dec True (10 * acc + d) cs
      | None \<Rightarrow> if c = CHR ''_'' \<and> after_digit then parse_dec False acc cs else None)"

definition py_int :: "string \<Rightarrow> int option" where
  "py_int s =
     (case rev (dropWhile int_isspace (rev (dropWhile int_isspace s))) of
        [] \<Rightarrow> None
      | c # cs \<Rightarrow>
          (let digits = (if c = CHR ''-'' \<or> c = CHR ''+'' then cs else c # cs) in
           if int_max_str_digits < length (filter (\<lambda>d. digit_val d \<noteq> None) digits) then None
           else if c = CHR ''-'' then map_option (\<lambda>n. - int n) (parse_dec False 0 digits)
           else map_option int (parse_dec False 0 digits)))"

text \<open>
  The decimal numeral of \<open>n / 100\<close>: a sign, the integer part, a point and one or two
  fractional digits.  For \<open>|n| < 10^15\<close> this is what \<open>repr(n / 100)\<close> prints: the
  quotient is the double nearest to \<open>n / 100\<close>, and the shortest numeral that reads back
  as that double is the exact decimal, which has at most 15 significant digits.
\<close>

definition digit_char :: "nat \<Rightarrow> char" where
  "digit_char d = ''0123456789'' ! d"

fun nat_digits :: "nat \<Rightarrow> string" where
  "nat_digits n =
     (if n < 10 then [digit_char n] else nat_digits (n div 10) @ [digit_char (n mod 10)])"

declare nat_digits.simps [simp del]

definition decimal_div100 :: "int \<Rightarrow> string" where
  "decimal_div100 n =
     (let m = nat \<bar>n\<bar> in
      (if n < 0 then ''-'' else [])
      @ nat_digits (m div 100) @ ''.''
      @ (if m mod 10 = 0 then [digit_char (m mod 100 div 10)]
         else [digit_char (m mod 100 div 10), digit_char (m mod 10)]))"

text \<open>
  The number a decimal numeral denotes (an optional minus sign, integer digits, a point,
  fractional digits); it says what \<open>decimal_div100\<close> prints.
\<close>

definition digits_value :: "string \<Rightarrow> nat" where
  "digits_value s = foldl (\<lambda>a c. 10 * a + (case digit_val c of Some d \<Rightarrow> d | None \<Rightarrow> 0)) 0 s"

definition decimal_value :: "string \<Rightarrow> real" where
  "decimal_value s =
     (let neg = (s \<noteq> [] \<and> hd s = CHR ''-'');
          t = (if neg then tl s else s);
          ip = takeWhile (\<lambda>c. c \<noteq> CHR ''.'') t;
          fp = drop 1 (dropWhile (\<lambda>c. c \<noteq> CHR ''.'') t);
          v = real (digits_value ip) + real (digits_value fp) / 10 ^ length fp
      in if neg then - v else v)"

text \<open>
  \<open>str(Path(s))\<close> on POSIX: the components are what lies between slashes, empty
  components and \<open>.\<close> are dropped (\<open>..\<close> is kept), and the root is \<open>/\<close>, or \<open>//\<close> when the
  string starts with exactly two slashes.
\<close>

fun split_slash :: "string \<Rightarrow> string list" where
  "split_slash [] = [[]]"
| "split_slash (c # cs) =
     (if c = CHR ''/'' then [] # split_slash cs
      else (case split_slash cs of [] \<Rightarrow> [[c]] | p # ps \<Rightarrow> (c # p) # ps))"

definition path_parts :: "string \<Rightarrow> string list" where
  "path_parts s = filter (\<lambda>p. p \<noteq> [] \<and> p \<noteq> ''.'') (split_slash s)"

definition path_root :: "string \<Rightarrow> string" where
  "path_root s =
     (if take 1 s \<noteq> ''/'' then []
      else if take 2 s = ''//'' \<and> take 3 s \<noteq> ''///'' then ''//''
      else ''/'')"

definition is_absolute :: "string \<Rightarrow> bool" where
  "is_absolute s \<longleftrightarrow> path_root s \<noteq> []"

section \<open>md2tex.py: the caption cache and the caption resolver\<close>

text \<open>
  What PyYAML's \<open>load\<close> returns for the cache file: a dictionary from hashes to captions
  (a key whose value is null counts as absent, since the code tests \<open>is not None\<close>), or a
  document that is no dictionary (a list, a scalar, null), which has no \<open>get\<close>.  A
  dictionary holding values other than strings is not represented.
\<close>

datatype yaml_doc = Mapping "string \<rightharpoonup> string" | NonMapping

text \<open>What importing torch and transformers and loading the pretrained models come
  to.\<close>

datatype model_setup = ImportFails | LoadFails | ModelsLoad

text \<open>
  What the module gets from outside is a record of parameters: the image root of
  globals.py as \<open>str\<close> prints it (an absolute path, not the root directory), the MD5 hex
  digest, whether PIL can open a file's bytes, the outcome of setting up the models,
  the text the captioning model decodes for an image (\<open>predictions[0]\<close>; the first
  argument is the number of earlier invocations, so the model need not be
  deterministic), PyYAML's \<open>load\<close> (\<open>None\<close>: the text does not parse) and \<open>dump\<close> on the
  cache dictionary, and \<open>repr(n / 100)\<close> for the integers \<open>n\<close> of magnitude \<open>10^15\<close> and
  more whose quotient is a finite float (rounded, or in exponent notation).
\<close>

record env =
  image_dir :: string
  md5_hexdigest :: "string \<Rightarrow> string"
  pil_open :: "string \<Rightarrow> bool"
  model_setup :: model_setup
  generate :: "nat \<Rightarrow> string \<Rightarrow> string"
  yaml_load :: "string \<Rightarrow> yaml_doc option"
  yaml_dump :: "(string \<rightharpoonup> string) \<Rightarrow> string"
  float_repr :: "int \<Rightarrow> string"

datatype log_level = INFO | WARNING

text \<open>
  What the operating system answers for a path: \<open>stat\<close> finds nothing there
  (\<open>exists()\<close> is false), \<open>stat\<close> fails otherwise (\<open>exists()\<close> raises OSError: a
  name too long, a directory that may not be searched), or the path is a directory, a
  file that may not be read, or a file with its bytes.
\<close>

datatype path_status = Absent | StatFails | Directory | Unreadable | RegularFile string

text \<open>
  The state the module reads and writes: the file system, the text of captions.yaml
  (created empty when absent), the object that the memoized \<open>get_caption_cache\<close>
  returns (\<open>None\<close> before its first successful call; \<open>get_caption\<close> mutates this very
  object), the memo table of \<open>get_caption\<close> (keyed by its argument), whether
  \<open>get_models\<close> has run, the number of model invocations, and the log.
\<close>

record world =
  files :: "string \<Rightarrow> path_status"
  cache_file :: string
  caption_cache :: "yaml_doc option"
  caption_memo :: "string \<rightharpoonup> string"
  models_loaded :: bool
  model_calls :: nat
  log :: "(log_level \<times> string) list"

definition logger :: "log_level \<Rightarrow> string \<Rightarrow> world \<Rightarrow> world" where
  "logger lvl msg w = w\<lparr>log := log w @ [(lvl, msg)]\<rparr>"

text \<open>
  \<^verbatim>\<open>
  @functools.cache
  def get_caption_cache() -> dict:
      with open(caption_cache_path) as f:
          return load(f.read() or "{}", Loader=Loader)
  \<close>
  Whatever \<open>load\<close> returns is memoized, a dictionary or not.
\<close>

definition get_caption_cache :: "env \<Rightarrow> world \<Rightarrow> (py_error + yaml_doc) \<times> world" where
  "get_caption_cache e w =
     (case caption_cache w of
        Some doc \<Rightarrow> (Inr doc, w)
      | None \<Rightarrow>
          (case yaml_load e (if cache_file w = [] then ''{}'' else cache_file w) of
             None \<Rightarrow> (Inl YAMLError, w)
           | Some doc \<Rightarrow> (Inr doc, w\<lparr>caption_cache := Some doc\<rparr>)))"

text \<open>
  \<^verbatim>\<open>
  def write_caption_cache(caption_cache: dict):
      with open(caption_cache_path, "w") as f:
          f.write(dump(caption_cache, Dumper=Dumper))
  \<close>
\<close>

definition write_caption_cache :: "env \<Rightarrow> (string \<rightharpoonup> string) \<Rightarrow> world \<Rightarrow> world" where
  "write_caption_cache e d w = w\<lparr>cache_file := yaml_dump e d\<rparr>"

text \<open>
  \<open>get_models\<close>, memoized: the imports come first, then the log line, then the
  loading; a call that raises is not memoized.
\<close>

definition get_models :: "env \<Rightarrow> world \<Rightarrow> (py_error + unit) \<times> world" where
  "get_models e w =
     (if models_loaded w then (Inr (), w)
      else (case model_setup e of
              ImportFails \<Rightarrow> (Inl ImportError, w)
            | LoadFails \<Rightarrow> (Inl ModelError, logger INFO ''Loading models'' w)
            | ModelsLoad \<Rightarrow>
                (Inr (), (logger INFO ''Loading models'' w)\<lparr>models_loaded := True\<rparr>)))"

text \<open>\<open>Path(image_path)\<close>, made absolute against the image root, as \<open>str\<close> prints
  it.\<close>

definition resolve_image_path :: "env \<Rightarrow> string \<Rightarrow> string" where
  "resolve_image_path e s =
     (if is_absolute s then path_root s @ py_join ''/'' (path_parts s)
      else if path_parts s = [] then image_dir e
      else image_dir e @ ''/'' @ py_join ''/'' (path_parts s))"

text \<open>
  The body of \<open>get_caption\<close> (lines 77 to 102), without the memoization:
  \<^verbatim>\<open>
      image_path = Path(image_path)
      if not image_path.is_absolute():
          image_path = image_dir / image_path
      if not image_path.exists():
          logger.warning(f"Image {image_path} does not exist")
          return ""
      image = PIL.Image.open(image_path)
      hash = md5(image_path.read_bytes()).hexdigest()
      caption_cache = get_caption_cache()
      if (caption := caption_cache.get(hash)) is not None:
          return caption
      model, feature_extractor, tokenizer, device = get_models()
      ...
      caption_cache[hash] = (caption := predictions[0].strip())
      write_caption_cache(caption_cache)
      return caption
  \<close>
\<close>

definition get_caption_body :: "env \<Rightarrow> string \<Rightarrow> world \<Rightarrow> (py_error + string) \<times> world" where
  "get_caption_body e image_path w =
     (let p = resolve_image_path e image_path in
      case files w p of
        Absent \<Rightarrow> (Inr [], logger WARNING (''Image '' @ p @ '' does not exist'') w)
      | StatFails \<Rightarrow> (Inl OSError, w)
      | Directory \<Rightarrow> (Inl IsADirectoryError, w)
      | Unreadable \<Rightarrow> (Inl PermissionError, w)
      | RegularFile bytes \<Rightarrow>
          if \<not> pil_open e bytes then (Inl UnidentifiedImageError, w)
          else
            (let hash = md5_hexdigest e bytes in
             case get_caption_cache e w of
               (Inl err, w1) \<Rightarrow> (Inl err, w1)
             | (Inr NonMapping, w1) \<Rightarrow> (Inl AttributeError, w1)
             | (Inr (Mapping d), w1) \<Rightarrow>
                 (case d hash of
                    Some caption \<Rightarrow> (Inr caption, w1)
                  | None \<Rightarrow>
                      (case get_models e w1 of
                         (Inl err, w2) \<Rightarrow> (Inl err, w2)
                       | (Inr _, w2) \<Rightarrow>
                           (let caption = py_strip (generate e (model_calls w2) bytes);
                                d' = d(hash \<mapsto> caption);
                                w3 = w2\<lparr>model_calls := Suc (model_calls w2),
                                        caption_cache := Some (Mapping d')\<rparr>
                            in (Inr caption, write_caption_cache e d' w3))))))"

text \<open>\<open>@functools.cache def get_caption(image_path: str)\<close>: results are remembered per
  argument; a call that raises is not remembered.\<close>

definition get_caption :: "env \<Rightarrow> string \<Rightarrow> world \<Rightarrow> (py_error + string) \<times> world" where
  "get_caption e image_path w =
     (case caption_memo w image_path of
        Some caption \<Rightarrow> (Inr caption, w)
      | None \<Rightarrow>
          (case get_caption_body e image_path w of
             (Inl err, w1) \<Rightarrow> (Inl err, w1)
           | (Inr caption, w1) \<Rightarrow>
               (Inr caption, w1\<lparr>caption_memo := (caption_memo w1)(image_path \<mapsto> caption)\<rparr>)))"

text \<open>A new run of the program: the disk and the log file stay, the memo tables and
  the loaded models are gone.\<close>

definition new_process :: "world \<Rightarrow> world" where
  "new_process w =
     w\<lparr>caption_cache := None, caption_memo := Map.empty, models_loaded := False\<rparr>"

section \<open>md2tex.py: the filter\<close>

text \<open>
  The nodes the filter matches on.  An image carries \<open>stringify(e.content)\<close>, its url
  and its attributes; every other node is \<open>Other\<close>.
\<close>

datatype element =
    Code string
  | CodeBlock "string list" string
  | Image string string "string \<rightharpoonup> string"
  | Other

datatype raw = RawInline string string | RawBlock string string

definition default_language :: string where
  "default_language = ''cpp''"

text \<open>Lines 109 to 119: the inline-code branch.\<close>

definition filter_code :: "string \<Rightarrow> string \<Rightarrow> py_error + raw" where
  "filter_code language text =
     (let prefix = backslash @ ''mintinline{'' @ language @ ''}'' in
      if CHR ''!'' \<notin> set text then Inr (RawInline (prefix @ ''!'' @ text @ ''!'') ''latex'')
      else if CHR ''|'' \<notin> set text then Inr (RawInline (prefix @ ''|'' @ text @ ''|'') ''latex'')
      else if count_list text CHR ''{'' = count_list text CHR ''}''
        then Inr (RawInline (prefix @ ''{'' @ text @ ''}'') ''latex'')
      else Inl (RuntimeError (''Unable to parse code block '' @ dquote @ text @ dquote)))"

text \<open>Lines 131 to 135: the caption of an image node.\<close>

definition image_caption ::
  "env \<Rightarrow> string \<Rightarrow> string \<Rightarrow> world \<Rightarrow> (py_error + string) \<times> world" where
  "image_caption e content url w =
     (let caption = py_capitalize (py_strip content) in
      if caption = [] then
        (case get_caption e url (logger WARNING (''Image '' @ url @ '' has no caption'') w) of
           (Inl err, w1) \<Rightarrow> (Inl err, w1)
         | (Inr c, w1) \<Rightarrow>
             (let caption = py_capitalize c
              in (Inr caption, logger INFO (''Generated caption: '' @ caption) w1)))
      else (Inr caption, w))"

text \<open>
  \<open>f"{n / 100}"\<close> for an integer \<open>n\<close>.  The division raises OverflowError when the
  quotient rounds to a value beyond the largest double, that is from
  \<open>100 * (2^1024 - 2^970)\<close> on; below \<open>10^15\<close> the float prints as the exact decimal;
  in between Python's rounded or exponent form is printed, which is a parameter.
\<close>

definition float_overflow_bound :: int where
  "float_overflow_bound = 100 * (2 ^ 1024 - 2 ^ 970)"

definition py_repr_div100 :: "env \<Rightarrow> int \<Rightarrow> py_error + string" where
  "py_repr_div100 e n =
     (if float_overflow_bound \<le> \<bar>n\<bar> then Inl OverflowError
      else if \<bar>n\<bar> < 10 ^ 15 then Inr (decimal_div100 n)
      else Inr (float_repr e n))"

text \<open>
  Lines 144 to 146 and 149 to 151: a size that ends in \<open>%\<close> becomes a fraction of
  the given length.
\<close>

definition scaled_size :: "env \<Rightarrow> string \<Rightarrow> string \<Rightarrow> py_error + string" where
  "scaled_size e unit v =
     (if py_endswith ''%'' v then
        (case py_int (py_removesuffix ''%'' v) of
           None \<Rightarrow> Inl ValueError
         | Some n \<Rightarrow>
             (case py_repr_div100 e n of
                Inl err \<Rightarrow> Inl err
              | Inr r \<Rightarrow> Inr (r @ backslash @ unit)))
      else Inr v)"

text \<open>Lines 138 to 155: the option list of the image.\<close>

definition image_formats :: "env \<Rightarrow> (string \<rightharpoonup> string) \<Rightarrow> py_error + string" where
  "image_formats e attrs =
     (let attributes = (\<lambda>k. map_option (\<lambda>v. py_removesuffix '','' (py_strip v)) (attrs k));
          formats = []
      in case (case attributes ''width'' of
                 None \<Rightarrow> Inr formats
               | Some width \<Rightarrow>
                   (case scaled_size e ''linewidth'' width of
                      Inl err \<Rightarrow> Inl err
                    | Inr width \<Rightarrow> Inr (formats @ ''width='' @ width @ '',''))) of
           Inl err \<Rightarrow> Inl err
         | Inr formats \<Rightarrow>
             (case (case attributes ''height'' of
                      None \<Rightarrow> Inr formats
                    | Some height \<Rightarrow>
                        (case scaled_size e ''textheight'' height of
                           Inl err \<Rightarrow> Inl err
                         | Inr height \<Rightarrow> Inr (formats @ ''height='' @ height @ '',''))) of
                Inl err \<Rightarrow> Inl err
              | Inr formats \<Rightarrow>
                  (let formats = py_removesuffix '','' formats
                   in Inr (if formats \<noteq> [] then ''['' @ formats @ '']'' else formats))))"

definition image_label :: "(string \<rightharpoonup> string) \<Rightarrow> string" where
  "image_label attrs =
     (let label = (case attrs ''label'' of None \<Rightarrow> [] | Some l \<Rightarrow> l)
      in if label \<noteq> [] then backslash @ ''label{'' @ label @ ''}'' else [])"

definition figure :: "string \<Rightarrow> string \<Rightarrow> string \<Rightarrow> string \<Rightarrow> string" where
  "figure formats url caption label =
     backslash @ ''begin{figure}[H]'' @ newline
     @ backslash @ ''centering'' @ newline
     @ backslash @ ''img'' @ formats @ ''{'' @ url @ ''}'' @ newline
     @ backslash @ ''caption{'' @ caption @ ''}'' @ label @ newline
     @ backslash @ ''end{figure}''"

text \<open>
  \<open>filter(e, doc, language)\<close>; \<open>doc\<close> is not used.  A node of another kind falls
  through the \<open>match\<close> and the function returns \<open>None\<close>.
\<close>

definition filter_md2tex ::
  "env \<Rightarrow> element \<Rightarrow> string \<Rightarrow> world \<Rightarrow> (py_error + raw option) \<times> world" where
  "filter_md2tex e el language w =
     (case el of
        Code text \<Rightarrow>
          (case filter_code language text of
             Inl err \<Rightarrow> (Inl err, w)
           | Inr r \<Rightarrow> (Inr (Some r), w))
      | CodeBlock classes text \<Rightarrow>
          (let language = (case classes of [] \<Rightarrow> language | c # _ \<Rightarrow> c)
           in (Inr (Some (RawBlock
                 (backslash @ ''begin{minted}{'' @ language @ ''}'' @ newline
                  @ text @ newline @ backslash @ ''end{minted}'') ''latex'')), w))
      | Image content url attrs \<Rightarrow>
          (case image_caption e content url w of
             (Inl err, w1) \<Rightarrow> (Inl err, w1)
           | (Inr caption, w1) \<Rightarrow>
               (let label = image_label attrs
                in case image_formats e attrs of
                     Inl err \<Rightarrow> (Inl err, w1)
                   | Inr formats \<Rightarrow>
                       (Inr (Some (RawInline (figure formats url caption label) ''latex'')), w1)))
      | Other \<Rightarrow> (Inr None, w))"

section \<open>Observations on the state\<close>

text \<open>The caption the in-memory cache holds for a hash, and the agreement of the
  in-memory cache with what a reader of the cache file would load.\<close>

definition cache_lookup :: "world \<Rightarrow> string \<Rightarrow> string option" where
  "cache_lookup w hash =
     (case caption_cache w of Some (Mapping d) \<Rightarrow> d hash | _ \<Rightarrow> None)"

definition cache_coherent :: "env \<Rightarrow> world \<Rightarrow> bool" where
  "cache_coherent e w \<longleftrightarrow>
     (case caption_cache w of
        None \<Rightarrow> True
      | Some doc \<Rightarrow> yaml_load e (if cache_file w = [] then ''{}'' else cache_file w) = Some doc)"

text \<open>The size attributes of an image are ASCII text.\<close>

definition ascii_sizes :: "(string \<rightharpoonup> string) \<Rightarrow> bool" where
  "ascii_sizes attrs \<longleftrightarrow>
     (case attrs ''width'' of None \<Rightarrow> True | Some a \<Rightarrow> is_ascii a)
     \<and> (case attrs ''height'' of None \<Rightarrow> True | Some a \<Rightarrow> is_ascii a)"

section \<open>Stand-ins for the external services\<close>

text \<open>
  A concrete environment and an initial state on which the functions can be run: the
  image root with one image in it, an empty cache file, a captioning model that answers
  with a fixed sentence, and a YAML codec for dictionaries with at most that image's
  key.
\<close>

definition stub_env :: env where
  "stub_env =
     \<lparr>image_dir = ''/doc/images'',
      md5_hexdigest = (\<lambda>bytes. if bytes = ''PNG1'' then ''9e107d9d'' else ''e4d909c2''),
      pil_open = (\<lambda>bytes. True),
      model_setup = ModelsLoad,
      generate = (\<lambda>n bytes. '' a robot on a table ''),
      yaml_load = (\<lambda>text.
        if text = ''{}'' then Some (Mapping Map.empty)
        else if text = ''9e107d9d: a robot on a table''
          then Some (Mapping [''9e107d9d'' \<mapsto> ''a robot on a table''])
        else None),
      yaml_dump = (\<lambda>d. case d ''9e107d9d'' of None \<Rightarrow> ''{}'' | Some v \<Rightarrow> ''9e107d9d: '' @ v),
      float_repr = (\<lambda>n. ''1e+16'')\<rparr>"

definition fresh_world :: world where
  "fresh_world =
     \<lparr>files = (\<lambda>p. Absent)
        (''/doc/images'' := Directory, ''/doc/images/robot.png'' := RegularFile ''PNG1''),
      cache_file = [],
      caption_cache = None,
      caption_memo = Map.empty,
      models_loaded = False,
      model_calls = 0,
      log = []\<rparr>"

lemmas stub_simps = stub_env_def fresh_world_def filter_md2tex_def image_caption_def
  get_caption_def get_caption_body_def get_caption_cache_def get_models_def
  write_caption_cache_def logger_def resolve_image_path_def is_absolute_def
  path_root_def path_parts_def
  py_capitalize_def py_strip_def py_isspace_def py_upper_char_def py_lower_char_def
  ascii_lowercase_def ascii_uppercase_def image_formats_def image_label_def
  py_removesuffix_def py_endswith_def default_language_def Let_def

section \<open>Properties of convert_list\<close>

lemma oxford_tail_join:
  "xs \<noteq> [] \<Longrightarrow> oxford_tail (xs @ [z]) = py_join '', '' xs @ '', and '' @ z"
  by (induction xs rule: oxford_tail.induct) simp_all

lemma natural_list_join:
  assumes "2 \<le> length xs"
  shows "natural_list (xs @ [z]) = py_join '', '' xs @ '', and '' @ z"
proof -
  from assms obtain a b bs where xs: "xs = a # b # bs"
    by (cases xs; cases "tl xs") auto
  have "natural_list (xs @ [z]) = a @ '', '' @ oxford_tail ((b # bs) @ [z])"
    unfolding xs by (cases bs) simp_all
  also have "\<dots> = a @ '', '' @ py_join '', '' (b # bs) @ '', and '' @ z"
    using oxford_tail_join [of "b # bs" z] by simp
  also have "\<dots> = py_join '', '' xs @ '', and '' @ z"
    unfolding xs by simp
  finally show ?thesis .
qed

text \<open>
  C9. A one-element list renders as its element, a two-element list as "A and B", and
  a list of three or more elements as all but the last joined with ", ", then ", and "
  and the last element; this is the natural-language list of the specification.
\<close>

theorem convert_list_natural_language:
  "convert_list [a] = Inr a
   \<and> convert_list [a, b] = Inr (a @ '' and '' @ b)
   \<and> (3 \<le> length l \<longrightarrow>
        convert_list l = Inr (py_join '', '' (butlast l) @ '', and '' @ last l)
        \<and> convert_list l = Inr (natural_list l))"
proof (intro conjI impI)
  show "convert_list [a] = Inr a"
    by (simp add: convert_list_def)
  show "convert_list [a, b] = Inr (a @ '' and '' @ b)"
    by (simp add: convert_list_def)
next
  assume len: "3 \<le> length l"
  then have ne: "l \<noteq> []" by auto
  show j: "convert_list l = Inr (py_join '', '' (butlast l) @ '', and '' @ last l)"
    using len by (simp add: convert_list_def py_last_def ne)
  have "natural_list (butlast l @ [last l])
          = py_join '', '' (butlast l) @ '', and '' @ last l"
    using len by (intro natural_list_join) simp
  then show "convert_list l = Inr (natural_list l)"
    using j ne by simp
qed

theorem convert_list_natural_language_witness:
  "convert_list [''A''] = Inr ''A''
   \<and> convert_list [''A'', ''B''] = Inr ''A and B''
   \<and> convert_list [''A'', ''B'', ''C''] = Inr ''A, B, and C''
   \<and> natural_list [''A'', ''B'', ''C''] = ''A, B, and C''"
  using convert_list_natural_language [of "''A''" "''B''" "[''A'', ''B'', ''C'']"]
  by simp

text \<open>
  C10. On the empty list the last branch reads \<open>l[-1]\<close> and raises IndexError; on
  every non-empty list the function returns a string.
\<close>

theorem convert_list_total_on_nonempty:
  "convert_list [] = Inl IndexError
   \<and> (l \<noteq> [] \<longrightarrow> (\<exists>s. convert_list l = Inr s))"
  by (simp add: convert_list_def py_last_def)

theorem convert_list_total_on_nonempty_witness:
  "convert_list [] = Inl IndexError
   \<and> [''A'', ''B'', ''C'', ''D''] \<noteq> []
   \<and> convert_list [''A'', ''B'', ''C'', ''D''] = Inr ''A, B, C, and D''"
  using convert_list_total_on_nonempty [of "[''A'', ''B'', ''C'', ''D'']"]
  by (simp add: convert_list_def py_last_def)

section \<open>Properties of the inline-code branch\<close>

text \<open>
  C1. For an inline-code node the filter delimits the text with \<open>!\<close> when the text has
  no \<open>!\<close>, with \<open>|\<close> when it has \<open>!\<close> but no \<open>|\<close>, and with braces when it has both
  and as many \<open>{\<close> as \<open>}\<close>.
\<close>

theorem filter_code_delimiter_choice:
  "(CHR ''!'' \<notin> set text \<longrightarrow>
      filter_md2tex e (Code text) language w =
        (Inr (Some (RawInline
           (backslash @ ''mintinline{'' @ language @ ''}'' @ ''!'' @ text @ ''!'') ''latex'')), w))
   \<and> (CHR ''!'' \<in> set text \<and> CHR ''|'' \<notin> set text \<longrightarrow>
      filter_md2tex e (Code text) language w =
        (Inr (Some (RawInline
           (backslash @ ''mintinline{'' @ language @ ''}'' @ ''|'' @ text @ ''|'') ''latex'')), w))
   \<and> (CHR ''!'' \<in> set text \<and> CHR ''|'' \<in> set text
        \<and> count_list text CHR ''{'' = count_list text CHR ''}'' \<longrightarrow>
      filter_md2tex e (Code text) language w =
        (Inr (Some (RawInline
           (backslash @ ''mintinline{'' @ language @ ''}'' @ ''{'' @ text @ ''}'') ''latex'')), w))"
  by (simp add: filter_md2tex_def filter_code_def)

theorem filter_code_delimiter_choice_witness:
  "filter_md2tex stub_env (Code ''x'') default_language fresh_world =
      (Inr (Some (RawInline (backslash @ ''mintinline{cpp}!x!'') ''latex'')), fresh_world)
   \<and> filter_md2tex stub_env (Code ''a!b'') default_language fresh_world =
      (Inr (Some (RawInline (backslash @ ''mintinline{cpp}|a!b|'') ''latex'')), fresh_world)
   \<and> filter_md2tex stub_env (Code ''a!b|c'') default_language fresh_world =
      (Inr (Some (RawInline (backslash @ ''mintinline{cpp}{a!b|c}'') ''latex'')), fresh_world)"
  using filter_code_delimiter_choice [of "''x''" stub_env default_language fresh_world]
    filter_code_delimiter_choice [of "''a!b''" stub_env default_language fresh_world]
    filter_code_delimiter_choice [of "''a!b|c''" stub_env default_language fresh_world]
  by (simp add: default_language_def)

text \<open>
  C2. On an inline-code node the filter raises the error exactly when the text has
  both \<open>!\<close> and \<open>|\<close> and unequal numbers of \<open>{\<close> and \<open>}\<close>; in every other case it
  returns an inline fragment.
\<close>

theorem filter_code_error_iff:
  "(isl (fst (filter_md2tex e (Code text) language w)) \<longleftrightarrow>
      CHR ''!'' \<in> set text \<and> CHR ''|'' \<in> set text
      \<and> count_list text CHR ''{'' \<noteq> count_list text CHR ''}'')
   \<and> (CHR ''!'' \<in> set text \<and> CHR ''|'' \<in> set text
        \<and> count_list text CHR ''{'' \<noteq> count_list text CHR ''}'' \<longrightarrow>
      filter_md2tex e (Code text) language w =
        (Inl (RuntimeError (''Unable to parse code block '' @ dquote @ text @ dquote)), w))
   \<and> (\<not> (CHR ''!'' \<in> set text \<and> CHR ''|'' \<in> set text
           \<and> count_list text CHR ''{'' \<noteq> count_list text CHR ''}'') \<longrightarrow>
      (\<exists>s. filter_md2tex e (Code text) language w = (Inr (Some (RawInline s ''latex'')), w)))"
  by (auto simp add: filter_md2tex_def filter_code_def Let_def)

theorem filter_code_error_iff_witness:
  "isl (fst (filter_md2tex stub_env (Code ''a!b|c{'') default_language fresh_world))
   \<and> filter_md2tex stub_env (Code ''a!b|c{'') default_language fresh_world =
        (Inl (RuntimeError (''Unable to parse code block '' @ dquote @ ''a!b|c{'' @ dquote)), fresh_world)
   \<and> \<not> isl (fst (filter_md2tex stub_env (Code ''a{!}|'') default_language fresh_world))
   \<and> (\<exists>s. filter_md2tex stub_env (Code ''a{!}|'') default_language fresh_world =
        (Inr (Some (RawInline s ''latex'')), fresh_world))"
  using filter_code_error_iff [of stub_env "''a!b|c{''" default_language fresh_world]
    filter_code_error_iff [of stub_env "''a{!}|''" default_language fresh_world]
  by simp
section \<open>Properties of the caption cache and the caption resolver\<close>

lemma get_caption_cache_loaded:
  "caption_cache w = Some doc \<Longrightarrow> get_caption_cache e w = (Inr doc, w)"
  by (simp add: get_caption_cache_def)

lemma get_caption_cache_result:
  "get_caption_cache e w = (Inr doc, w1) \<Longrightarrow> w1 = w\<lparr>caption_cache := Some doc\<rparr>"
  by (auto simp add: get_caption_cache_def split: option.splits)

lemma get_caption_cache_logger:
  "get_caption_cache e (logger lvl msg w) =
     (fst (get_caption_cache e w), logger lvl msg (snd (get_caption_cache e w)))"
  by (simp add: get_caption_cache_def logger_def split: option.splits)

lemma get_caption_body_missing:
  "files w (resolve_image_path e url) = Absent \<Longrightarrow>
   get_caption_body e url w =
     (Inr [], logger WARNING (''Image '' @ resolve_image_path e url @ '' does not exist'') w)"
  by (simp add: get_caption_body_def)

lemma get_caption_body_hit:
  assumes "files w (resolve_image_path e url) = RegularFile bytes" "pil_open e bytes"
    "get_caption_cache e w = (Inr (Mapping d), w1)" "d (md5_hexdigest e bytes) = Some c"
  shows "get_caption_body e url w = (Inr c, w1)"
  using assms by (simp add: get_caption_body_def)

lemma get_caption_body_miss:
  assumes "files w (resolve_image_path e url) = RegularFile bytes" "pil_open e bytes"
    "get_caption_cache e w = (Inr (Mapping d), w1)" "d (md5_hexdigest e bytes) = None"
    "get_models e w1 = (Inr (), w2)"
  shows "get_caption_body e url w =
     (Inr (py_strip (generate e (model_calls w2) bytes)),
      w2\<lparr>model_calls := Suc (model_calls w2),
         caption_cache := Some (Mapping
           (d(md5_hexdigest e bytes \<mapsto> py_strip (generate e (model_calls w2) bytes)))),
         cache_file :=
           yaml_dump e (d(md5_hexdigest e bytes \<mapsto> py_strip (generate e (model_calls w2) bytes)))\<rparr>)"
  using assms by (simp add: get_caption_body_def write_caption_cache_def Let_def)

lemma get_models_ok:
  "models_loaded w \<or> model_setup e = ModelsLoad \<Longrightarrow>
   \<exists>w2. get_models e w = (Inr (), w2) \<and> model_calls w2 = model_calls w
      \<and> files w2 = files w \<and> caption_memo w2 = caption_memo w \<and> models_loaded w2"
  by (auto simp add: get_models_def logger_def)

lemma get_caption_body_cached:
  assumes "get_caption_body e url w = (Inr c, w')"
    "files w (resolve_image_path e url) = RegularFile bytes"
  shows "\<exists>d. caption_cache w' = Some (Mapping d) \<and> d (md5_hexdigest e bytes) = Some c"
  using assms
  by (auto simp add: get_caption_body_def write_caption_cache_def Let_def get_caption_cache_def
      get_models_def
      split: if_splits option.splits prod.splits sum.splits yaml_doc.splits model_setup.splits)

lemma get_caption_body_files:
  "get_caption_body e url w = (r, w') \<Longrightarrow> files w' = files w"
  by (auto simp add: get_caption_body_def write_caption_cache_def Let_def get_caption_cache_def
      get_models_def logger_def
      split: if_splits option.splits prod.splits sum.splits yaml_doc.splits model_setup.splits
        path_status.splits)

lemma get_caption_memoized:
  "get_caption e url w = (Inr c, w') \<Longrightarrow> caption_memo w' url = Some c"
  by (auto simp add: get_caption_def split: option.splits prod.splits sum.splits)

lemma py_capitalize_Nil: "py_capitalize [] = []"
  by (simp add: py_capitalize_def)

lemma get_caption_miss:
  assumes memo: "caption_memo w url = None"
    and present: "files w (resolve_image_path e url) = RegularFile bytes"
    and pil: "pil_open e bytes"
    and cache: "fst (get_caption_cache e w) = Inr (Mapping d)"
    and miss: "d (md5_hexdigest e bytes) = None"
    and models: "models_loaded w \<or> model_setup e = ModelsLoad"
    and cap: "caption = py_strip (generate e (model_calls w) bytes)"
  shows "\<exists>w'. get_caption e url w = (Inr caption, w')
      \<and> model_calls w' = Suc (model_calls w)
      \<and> caption_cache w' = Some (Mapping (d(md5_hexdigest e bytes \<mapsto> caption)))
      \<and> cache_file w' = yaml_dump e (d(md5_hexdigest e bytes \<mapsto> caption))
      \<and> caption_memo w' = (caption_memo w)(url \<mapsto> caption)
      \<and> files w' = files w"
proof -
  obtain w1 where c1: "get_caption_cache e w = (Inr (Mapping d), w1)"
    using cache by (cases "get_caption_cache e w") simp
  then have w1: "w1 = w\<lparr>caption_cache := Some (Mapping d)\<rparr>"
    by (rule get_caption_cache_result)
  have "models_loaded w1 \<or> model_setup e = ModelsLoad"
    using models w1 by simp
  then obtain w2 where m: "get_models e w1 = (Inr (), w2)"
    and w2: "model_calls w2 = model_calls w1" "files w2 = files w1"
      "caption_memo w2 = caption_memo w1"
    using get_models_ok [of w1 e] by blast
  have "get_caption_body e url w =
     (Inr caption,
      w2\<lparr>model_calls := Suc (model_calls w2),
         caption_cache := Some (Mapping (d(md5_hexdigest e bytes \<mapsto> caption))),
         cache_file := yaml_dump e (d(md5_hexdigest e bytes \<mapsto> caption))\<rparr>)"
    using get_caption_body_miss [OF present pil c1 miss m] w2 w1 cap by simp
  then show ?thesis
    using memo w1 w2 by (simp add: get_caption_def)
qed

text \<open>A cache hit: the stored caption is returned, and nothing but the memo tables
  changes.\<close>

lemma get_caption_hit:
  assumes memo: "caption_memo w url = None"
    and present: "files w (resolve_image_path e url) = RegularFile bytes"
    and pil: "pil_open e bytes"
    and cache: "fst (get_caption_cache e w) = Inr (Mapping d)"
    and hit: "d (md5_hexdigest e bytes) = Some c"
  shows "get_caption e url w =
      (Inr c, w\<lparr>caption_cache := Some (Mapping d), caption_memo := (caption_memo w)(url \<mapsto> c)\<rparr>)"
proof -
  obtain w1 where c1: "get_caption_cache e w = (Inr (Mapping d), w1)"
    using cache by (cases "get_caption_cache e w") simp
  then have w1: "w1 = w\<lparr>caption_cache := Some (Mapping d)\<rparr>"
    by (rule get_caption_cache_result)
  show ?thesis
    using get_caption_body_hit [OF present pil c1 hit] memo w1 by (simp add: get_caption_def)
qed

lemma get_caption_cache_new_process:
  assumes "cache_coherent e w" "caption_cache w = Some doc"
  shows "get_caption_cache e (new_process w) =
    (Inr doc, (new_process w)\<lparr>caption_cache := Some doc\<rparr>)"
  using assms
  by (auto simp add: cache_coherent_def get_caption_cache_def new_process_def split: if_splits)

text \<open>
  Whenever PyYAML reads back what it wrote for the dictionary that \<open>get_caption\<close> leaves
  in memory, the cache file agrees with the in-memory cache after the call as it did
  before.
\<close>

lemma get_caption_coherent:
  assumes "get_caption e url w = (r, w')" "cache_coherent e w"
    "\<And>d. caption_cache w' = Some (Mapping d) \<Longrightarrow>
       yaml_load e (yaml_dump e d) = Some (Mapping d) \<and> yaml_dump e d \<noteq> []"
  shows "cache_coherent e w'"
  using assms
  by (auto simp add: get_caption_def get_caption_body_def get_caption_cache_def get_models_def
      write_caption_cache_def logger_def cache_coherent_def Let_def
      split: option.splits prod.splits sum.splits if_splits yaml_doc.splits model_setup.splits
        path_status.splits)

text \<open>
  What the writer and the reader do to the cache file.  The writer replaces the file by
  PyYAML's dump; a reader that has not been called in this run returns PyYAML's load of
  the file (of \<open>{}\<close> when the file is empty), so it returns the dictionary written
  exactly when PyYAML reads back what it wrote; a reader that has been called returns
  its memoized object, whatever was written since.
\<close>

lemma cache_read_after_write:
  "cache_file (write_caption_cache e d w) = yaml_dump e d
   \<and> (caption_cache w = None \<longrightarrow>
        get_caption_cache e (write_caption_cache e d w) =
          (case yaml_load e (if yaml_dump e d = [] then ''{}'' else yaml_dump e d) of
             None \<Rightarrow> (Inl YAMLError, write_caption_cache e d w)
           | Some doc \<Rightarrow>
               (Inr doc, (write_caption_cache e d w)\<lparr>caption_cache := Some doc\<rparr>))
        \<and> (fst (get_caption_cache e (write_caption_cache e d w)) = Inr (Mapping d) \<longleftrightarrow>
             yaml_load e (if yaml_dump e d = [] then ''{}'' else yaml_dump e d)
               = Some (Mapping d)))
   \<and> (fst (get_caption_cache e (new_process (write_caption_cache e d w))) = Inr (Mapping d)
        \<longleftrightarrow> yaml_load e (if yaml_dump e d = [] then ''{}'' else yaml_dump e d)
               = Some (Mapping d))
   \<and> (caption_cache w = Some doc \<longrightarrow>
        get_caption_cache e (write_caption_cache e d w) =
          (Inr doc, write_caption_cache e d w))"
  by (auto simp add: get_caption_cache_def write_caption_cache_def new_process_def
      split: option.splits)

text \<open>
  C6. When nothing exists at the resolved path, the body of \<open>get_caption\<close> logs a
  warning that names the resolved path and returns the empty string; nothing but the
  log (and, on the first call for this argument, the memo table) changes, so the model
  is not invoked and the cache is neither loaded nor written, and the filter goes on to
  emit the figure with an empty caption.
\<close>

theorem get_caption_missing_image:
  assumes "files w (resolve_image_path e url) = Absent"
  shows "get_caption_body e url w =
           (Inr [], w\<lparr>log := log w @
              [(WARNING, ''Image '' @ resolve_image_path e url @ '' does not exist'')]\<rparr>)
    \<and> (caption_memo w url = None \<longrightarrow>
         get_caption e url w =
           (Inr [], w\<lparr>log := log w @
              [(WARNING, ''Image '' @ resolve_image_path e url @ '' does not exist'')],
              caption_memo := (caption_memo w)(url \<mapsto> [])\<rparr>)
         \<and> model_calls (snd (get_caption e url w)) = model_calls w
         \<and> models_loaded (snd (get_caption e url w)) = models_loaded w
         \<and> caption_cache (snd (get_caption e url w)) = caption_cache w
         \<and> cache_file (snd (get_caption e url w)) = cache_file w)
    \<and> (caption_memo w url = None \<and> py_capitalize (py_strip content) = []
         \<and> ascii_sizes attrs \<longrightarrow>
         fst (filter_md2tex e (Image content url attrs) language w) =
           (case image_formats e attrs of
              Inl err \<Rightarrow> Inl err
            | Inr formats \<Rightarrow>
                Inr (Some (RawInline (figure formats url [] (image_label attrs)) ''latex''))))"
proof -
  let ?msg = "''Image '' @ resolve_image_path e url @ '' does not exist''"
  have body: "get_caption_body e url w = (Inr [], w\<lparr>log := log w @ [(WARNING, ?msg)]\<rparr>)"
    using assms by (simp add: get_caption_body_missing logger_def)
  have memo: "get_caption e url w =
      (Inr [], w\<lparr>log := log w @ [(WARNING, ?msg)], caption_memo := (caption_memo w)(url \<mapsto> [])\<rparr>)"
    if "caption_memo w url = None"
    using that body by (simp add: get_caption_def)
  have flt: "fst (filter_md2tex e (Image content url attrs) language w) =
           (case image_formats e attrs of
              Inl err \<Rightarrow> Inl err
            | Inr formats \<Rightarrow>
                Inr (Some (RawInline (figure formats url [] (image_label attrs)) ''latex'')))"
    if m: "caption_memo w url = None" and c: "py_capitalize (py_strip content) = []"
  proof -
    let ?w0 = "logger WARNING (''Image '' @ url @ '' has no caption'') w"
    have "files ?w0 (resolve_image_path e url) = Absent" "caption_memo ?w0 url = None"
      using assms m by (simp_all add: logger_def)
    then have "fst (get_caption e url ?w0) = Inr []"
      by (simp add: get_caption_def get_caption_body_missing)
    then obtain w1 where "get_caption e url ?w0 = (Inr [], w1)"
      by (cases "get_caption e url ?w0") simp
    then have "fst (image_caption e content url w) = Inr []"
      using c by (simp add: image_caption_def py_capitalize_Nil)
    then show ?thesis
      by (cases "image_caption e content url w")
        (simp add: filter_md2tex_def split: sum.splits)
  qed
  show ?thesis
    using body memo flt by simp
qed

theorem get_caption_missing_image_witness:
  "resolve_image_path stub_env ''./missing.png'' = ''/doc/images/missing.png''
   \<and> files fresh_world (resolve_image_path stub_env ''./missing.png'') = Absent
   \<and> caption_memo fresh_world ''./missing.png'' = None
   \<and> ascii_sizes Map.empty
   \<and> fst (get_caption stub_env ''./missing.png'' fresh_world) = Inr []
   \<and> log (snd (get_caption stub_env ''./missing.png'' fresh_world)) =
        [(WARNING, ''Image /doc/images/missing.png does not exist'')]
   \<and> model_calls (snd (get_caption stub_env ''./missing.png'' fresh_world)) = 0
   \<and> caption_cache (snd (get_caption stub_env ''./missing.png'' fresh_world)) = None
   \<and> cache_file (snd (get_caption stub_env ''./missing.png'' fresh_world)) = []
   \<and> fst (filter_md2tex stub_env (Image [] ''./missing.png'' Map.empty)
             default_language fresh_world) =
        Inr (Some (RawInline (figure [] ''./missing.png'' [] []) ''latex''))"
  using get_caption_missing_image
    [of fresh_world stub_env "''./missing.png''" "[]" Map.empty default_language]
  by (simp add: stub_simps ascii_sizes_def)

text \<open>
  C3, as the code has it.  On a cache miss \<open>get_caption\<close> invokes the model once,
  stores the stripped caption, not capitalized, under the image's hash, writes the cache
  file and returns that same stripped caption; the capital letter is put by the filter
  on the value it gets back, and is not in the cache.
\<close>

theorem get_caption_cache_miss:
  assumes memo: "caption_memo w url = None"
    and present: "files w (resolve_image_path e url) = RegularFile bytes"
    and pil: "pil_open e bytes"
    and cache: "fst (get_caption_cache e w) = Inr (Mapping d)"
    and miss: "d (md5_hexdigest e bytes) = None"
    and models: "models_loaded w \<or> model_setup e = ModelsLoad"
    and cap: "caption = py_strip (generate e (model_calls w) bytes)"
  shows "fst (get_caption e url w) = Inr caption
    \<and> model_calls (snd (get_caption e url w)) = Suc (model_calls w)
    \<and> caption_cache (snd (get_caption e url w)) = Some (Mapping (d(md5_hexdigest e bytes \<mapsto> caption)))
    \<and> cache_file (snd (get_caption e url w)) = yaml_dump e (d(md5_hexdigest e bytes \<mapsto> caption))
    \<and> (py_capitalize (py_strip content) = [] \<longrightarrow>
         fst (filter_md2tex e (Image content url attrs) language w) =
           (case image_formats e attrs of
              Inl err \<Rightarrow> Inl err
            | Inr formats \<Rightarrow>
                Inr (Some (RawInline
                  (figure formats url (py_capitalize caption) (image_label attrs)) ''latex'')))
         \<and> model_calls (snd (filter_md2tex e (Image content url attrs) language w))
             = Suc (model_calls w)
         \<and> cache_lookup (snd (filter_md2tex e (Image content url attrs) language w))
             (md5_hexdigest e bytes) = Some caption)"
proof -
  obtain w' where g: "get_caption e url w = (Inr caption, w')"
    "model_calls w' = Suc (model_calls w)"
    "caption_cache w' = Some (Mapping (d(md5_hexdigest e bytes \<mapsto> caption)))"
    "cache_file w' = yaml_dump e (d(md5_hexdigest e bytes \<mapsto> caption))"
    using get_caption_miss [OF memo present pil cache miss models cap] by blast
  have flt: "fst (filter_md2tex e (Image content url attrs) language w) =
           (case image_formats e attrs of
              Inl err \<Rightarrow> Inl err
            | Inr formats \<Rightarrow>
                Inr (Some (RawInline
                  (figure formats url (py_capitalize caption) (image_label attrs)) ''latex'')))
         \<and> model_calls (snd (filter_md2tex e (Image content url attrs) language w))
             = Suc (model_calls w)
         \<and> cache_lookup (snd (filter_md2tex e (Image content url attrs) language w))
             (md5_hexdigest e bytes) = Some caption"
    if c: "py_capitalize (py_strip content) = []"
  proof -
    let ?w0 = "logger WARNING (''Image '' @ url @ '' has no caption'') w"
    have h: "caption_memo ?w0 url = None"
      "files ?w0 (resolve_image_path e url) = RegularFile bytes"
      "fst (get_caption_cache e ?w0) = Inr (Mapping d)"
      "models_loaded ?w0 \<or> model_setup e = ModelsLoad"
      "caption = py_strip (generate e (model_calls ?w0) bytes)"
      using memo present cache models cap
      by (simp_all add: get_caption_cache_logger) (simp_all add: logger_def)
    obtain w1 where g0: "get_caption e url ?w0 = (Inr caption, w1)"
      "model_calls w1 = Suc (model_calls ?w0)"
      "caption_cache w1 = Some (Mapping (d(md5_hexdigest e bytes \<mapsto> caption)))"
      using get_caption_miss [OF h(1) h(2) pil h(3) miss h(4) h(5)] by blast
    have ic: "image_caption e content url w =
        (Inr (py_capitalize caption),
         logger INFO (''Generated caption: '' @ py_capitalize caption) w1)"
      using c g0(1) by (simp add: image_caption_def Let_def)
    show ?thesis
      using ic g0(2,3)
      by (simp add: filter_md2tex_def cache_lookup_def logger_def split: sum.splits)
  qed
  show ?thesis
    using g flt by simp
qed

theorem get_caption_cache_miss_witness:
  "caption_memo fresh_world ''robot.png'' = None
   \<and> files fresh_world (resolve_image_path stub_env ''robot.png'') = RegularFile ''PNG1''
   \<and> pil_open stub_env ''PNG1''
   \<and> fst (get_caption_cache stub_env fresh_world) = Inr (Mapping Map.empty)
   \<and> (models_loaded fresh_world \<or> model_setup stub_env = ModelsLoad)
   \<and> fst (get_caption stub_env ''robot.png'' fresh_world) = Inr ''a robot on a table''
   \<and> model_calls (snd (get_caption stub_env ''robot.png'' fresh_world)) = 1
   \<and> cache_file (snd (get_caption stub_env ''robot.png'' fresh_world))
        = ''9e107d9d: a robot on a table''
   \<and> cache_lookup (snd (get_caption stub_env ''robot.png'' fresh_world)) ''9e107d9d''
        = Some ''a robot on a table''
   \<and> fst (filter_md2tex stub_env (Image [] ''robot.png'' Map.empty)
             default_language fresh_world) =
        Inr (Some (RawInline (figure [] ''robot.png'' ''A robot on a table'' []) ''latex''))"
  using get_caption_cache_miss
    [of fresh_world "''robot.png''" stub_env "''PNG1''" Map.empty "''a robot on a table''"
        "[]" Map.empty default_language]
  by (simp add: stub_simps cache_lookup_def)

text \<open>The claim as stated fails: the cached caption of the stand-in image is not the
  capitalized one that the filter prints.\<close>

theorem cached_caption_not_capitalized:
  "cache_lookup (snd (filter_md2tex stub_env (Image [] ''robot.png'' Map.empty)
        default_language fresh_world)) ''9e107d9d'' = Some ''a robot on a table''
   \<and> fst (filter_md2tex stub_env (Image [] ''robot.png'' Map.empty)
        default_language fresh_world) =
      Inr (Some (RawInline (figure [] ''robot.png'' ''A robot on a table'' []) ''latex''))
   \<and> py_capitalize ''a robot on a table'' = ''A robot on a table''
   \<and> ''a robot on a table'' \<noteq> ''A robot on a table''"
  by (simp add: stub_simps cache_lookup_def)

text \<open>
  C5, as the code has it.  A call that returned a caption returns the same caption when
  repeated with the same argument, and leaves the state as it is: the memo table,
  keyed by the argument as passed, answers.  A call that finds the image's hash in the
  cache returns the stored caption and invokes no model.  After a first call that
  missed the cache, the cache holds the caption that call returned under the image's
  hash, and a call for any image file with that hash, under the same or another
  spelling of the path, returns that caption with no model invocation and no cache
  write, in the same run and, when the cache file agrees with the in-memory cache, in
  a new run.
\<close>

theorem get_caption_idempotent:
  "(get_caption e url w = (Inr c, w') \<longrightarrow> get_caption e url w' = (Inr c, w'))
   \<and> (caption_memo w url = None
        \<and> files w (resolve_image_path e url) = RegularFile bytes \<and> pil_open e bytes
        \<and> fst (get_caption_cache e w) = Inr (Mapping d)
        \<and> d (md5_hexdigest e bytes) = Some c \<longrightarrow>
          fst (get_caption e url w) = Inr c
          \<and> model_calls (snd (get_caption e url w)) = model_calls w
          \<and> models_loaded (snd (get_caption e url w)) = models_loaded w
          \<and> caption_cache (snd (get_caption e url w)) = Some (Mapping d)
          \<and> cache_file (snd (get_caption e url w)) = cache_file w)
   \<and> (caption_memo w url = None
        \<and> files w (resolve_image_path e url) = RegularFile bytes \<and> pil_open e bytes
        \<and> fst (get_caption_cache e w) = Inr (Mapping d)
        \<and> d (md5_hexdigest e bytes) = None
        \<and> (models_loaded w \<or> model_setup e = ModelsLoad)
        \<and> c = py_strip (generate e (model_calls w) bytes)
        \<and> w' = snd (get_caption e url w)
        \<and> caption_memo w url2 = None
        \<and> files w (resolve_image_path e url2) = RegularFile bytes2 \<and> pil_open e bytes2
        \<and> md5_hexdigest e bytes2 = md5_hexdigest e bytes \<longrightarrow>
          fst (get_caption e url w) = Inr c
          \<and> cache_lookup w' (md5_hexdigest e bytes) = Some c
          \<and> fst (get_caption e url2 w') = Inr c
          \<and> model_calls (snd (get_caption e url2 w')) = model_calls w'
          \<and> caption_cache (snd (get_caption e url2 w')) = caption_cache w'
          \<and> cache_file (snd (get_caption e url2 w')) = cache_file w'
          \<and> (cache_coherent e w' \<longrightarrow>
               fst (get_caption e url2 (new_process w')) = Inr c
               \<and> model_calls (snd (get_caption e url2 (new_process w'))) = model_calls w'
               \<and> cache_file (snd (get_caption e url2 (new_process w'))) = cache_file w'))"
proof (intro conjI)
  show "get_caption e url w = (Inr c, w') \<longrightarrow> get_caption e url w' = (Inr c, w')"
  proof
    assume "get_caption e url w = (Inr c, w')"
    then have "caption_memo w' url = Some c"
      by (rule get_caption_memoized)
    then show "get_caption e url w' = (Inr c, w')"
      by (simp add: get_caption_def)
  qed
next
  show "caption_memo w url = None
        \<and> files w (resolve_image_path e url) = RegularFile bytes \<and> pil_open e bytes
        \<and> fst (get_caption_cache e w) = Inr (Mapping d)
        \<and> d (md5_hexdigest e bytes) = Some c \<longrightarrow>
          fst (get_caption e url w) = Inr c
          \<and> model_calls (snd (get_caption e url w)) = model_calls w
          \<and> models_loaded (snd (get_caption e url w)) = models_loaded w
          \<and> caption_cache (snd (get_caption e url w)) = Some (Mapping d)
          \<and> cache_file (snd (get_caption e url w)) = cache_file w"
    using get_caption_hit [of w url e bytes d c] by simp
next
  show "caption_memo w url = None
        \<and> files w (resolve_image_path e url) = RegularFile bytes \<and> pil_open e bytes
        \<and> fst (get_caption_cache e w) = Inr (Mapping d)
        \<and> d (md5_hexdigest e bytes) = None
        \<and> (models_loaded w \<or> model_setup e = ModelsLoad)
        \<and> c = py_strip (generate e (model_calls w) bytes)
        \<and> w' = snd (get_caption e url w)
        \<and> caption_memo w url2 = None
        \<and> files w (resolve_image_path e url2) = RegularFile bytes2 \<and> pil_open e bytes2
        \<and> md5_hexdigest e bytes2 = md5_hexdigest e bytes \<longrightarrow>
          fst (get_caption e url w) = Inr c
          \<and> cache_lookup w' (md5_hexdigest e bytes) = Some c
          \<and> fst (get_caption e url2 w') = Inr c
          \<and> model_calls (snd (get_caption e url2 w')) = model_calls w'
          \<and> caption_cache (snd (get_caption e url2 w')) = caption_cache w'
          \<and> cache_file (snd (get_caption e url2 w')) = cache_file w'
          \<and> (cache_coherent e w' \<longrightarrow>
               fst (get_caption e url2 (new_process w')) = Inr c
               \<and> model_calls (snd (get_caption e url2 (new_process w'))) = model_calls w'
               \<and> cache_file (snd (get_caption e url2 (new_process w'))) = cache_file w')"
  proof
    assume h: "caption_memo w url = None
        \<and> files w (resolve_image_path e url) = RegularFile bytes \<and> pil_open e bytes
        \<and> fst (get_caption_cache e w) = Inr (Mapping d)
        \<and> d (md5_hexdigest e bytes) = None
        \<and> (models_loaded w \<or> model_setup e = ModelsLoad)
        \<and> c = py_strip (generate e (model_calls w) bytes)
        \<and> w' = snd (get_caption e url w)
        \<and> caption_memo w url2 = None
        \<and> files w (resolve_image_path e url2) = RegularFile bytes2 \<and> pil_open e bytes2
        \<and> md5_hexdigest e bytes2 = md5_hexdigest e bytes"
    let ?h = "md5_hexdigest e bytes"
    let ?d = "d(?h \<mapsto> c)"
    from h have h1: "caption_memo w url = None"
      and h2: "files w (resolve_image_path e url) = RegularFile bytes"
      and h3: "pil_open e bytes"
      and h4: "fst (get_caption_cache e w) = Inr (Mapping d)"
      and h5: "d (md5_hexdigest e bytes) = None"
      and h6: "models_loaded w \<or> model_setup e = ModelsLoad"
      and h7: "c = py_strip (generate e (model_calls w) bytes)"
      by simp_all
    obtain v where first: "get_caption e url w = (Inr c, v)"
      and v: "caption_cache v = Some (Mapping ?d)" "caption_memo v = (caption_memo w)(url \<mapsto> c)"
        "files v = files w"
      using get_caption_miss [OF h1 h2 h3 h4 h5 h6 h7] by auto
    have w': "w' = v"
      using h first by simp
    have r1: "fst (get_caption e url w) = Inr c"
      using first by simp
    have r2: "cache_lookup w' ?h = Some c"
      using v w' by (simp add: cache_lookup_def)
    have hit2: "?d (md5_hexdigest e bytes2) = Some c"
      using h by simp
    have f2: "files w' (resolve_image_path e url2) = RegularFile bytes2"
      using h v w' by simp
    have c2: "fst (get_caption_cache e w') = Inr (Mapping ?d)"
      using v w' by (simp add: get_caption_cache_loaded)
    have again: "fst (get_caption e url2 w') = Inr c
          \<and> model_calls (snd (get_caption e url2 w')) = model_calls w'
          \<and> caption_cache (snd (get_caption e url2 w')) = caption_cache w'
          \<and> cache_file (snd (get_caption e url2 w')) = cache_file w'"
    proof (cases "url2 = url")
      case True
      then have "get_caption e url2 w' = (Inr c, w')"
        using v w' by (simp add: get_caption_def)
      then show ?thesis by simp
    next
      case False
      then have "caption_memo w' url2 = None"
        using h v w' by simp
      then show ?thesis
        using get_caption_hit [of w' url2 e bytes2 ?d c] f2 c2 hit2 h v w' by simp
    qed
    have later: "fst (get_caption e url2 (new_process w')) = Inr c
               \<and> model_calls (snd (get_caption e url2 (new_process w'))) = model_calls w'
               \<and> cache_file (snd (get_caption e url2 (new_process w'))) = cache_file w'"
      if coh: "cache_coherent e w'"
    proof -
      let ?n = "new_process w'"
      have "caption_memo ?n url2 = None"
        "files ?n (resolve_image_path e url2) = RegularFile bytes2"
        using f2 by (simp_all add: new_process_def)
      moreover have "fst (get_caption_cache e ?n) = Inr (Mapping ?d)"
        using get_caption_cache_new_process [OF coh] v w' by simp
      ultimately show ?thesis
        using get_caption_hit [of ?n url2 e bytes2 ?d c] hit2 h by (simp add: new_process_def)
    qed
    show "fst (get_caption e url w) = Inr c
          \<and> cache_lookup w' (md5_hexdigest e bytes) = Some c
          \<and> fst (get_caption e url2 w') = Inr c
          \<and> model_calls (snd (get_caption e url2 w')) = model_calls w'
          \<and> caption_cache (snd (get_caption e url2 w')) = caption_cache w'
          \<and> cache_file (snd (get_caption e url2 w')) = cache_file w'
          \<and> (cache_coherent e w' \<longrightarrow>
               fst (get_caption e url2 (new_process w')) = Inr c
               \<and> model_calls (snd (get_caption e url2 (new_process w'))) = model_calls w'
               \<and> cache_file (snd (get_caption e url2 (new_process w'))) = cache_file w')"
      using r1 r2 again later by blast
  qed
qed

theorem get_caption_idempotent_witness:
  "get_caption stub_env ''robot.png'' fresh_world =
      (Inr ''a robot on a table'', snd (get_caption stub_env ''robot.png'' fresh_world))
   \<and> get_caption stub_env ''robot.png'' (snd (get_caption stub_env ''robot.png'' fresh_world)) =
      (Inr ''a robot on a table'', snd (get_caption stub_env ''robot.png'' fresh_world))
   \<and> caption_memo fresh_world ''./robot.png'' = None
   \<and> files fresh_world (resolve_image_path stub_env ''./robot.png'') = RegularFile ''PNG1''
   \<and> cache_lookup (snd (get_caption stub_env ''robot.png'' fresh_world)) ''9e107d9d''
        = Some ''a robot on a table''
   \<and> fst (get_caption stub_env ''./robot.png''
        (snd (get_caption stub_env ''robot.png'' fresh_world))) = Inr ''a robot on a table''
   \<and> model_calls (snd (get_caption stub_env ''robot.png'' fresh_world)) = 1
   \<and> model_calls (snd (get_caption stub_env ''./robot.png''
        (snd (get_caption stub_env ''robot.png'' fresh_world)))) = 1
   \<and> cache_coherent stub_env (snd (get_caption stub_env ''robot.png'' fresh_world))
   \<and> fst (get_caption stub_env ''./robot.png''
        (new_process (snd (get_caption stub_env ''robot.png'' fresh_world)))) =
      Inr ''a robot on a table''
   \<and> model_calls (snd (get_caption stub_env ''./robot.png''
        (new_process (snd (get_caption stub_env ''robot.png'' fresh_world))))) = 1
   \<and> fst (get_caption stub_env ''/doc/images/robot.png''
        (new_process (snd (get_caption stub_env ''robot.png'' fresh_world)))) =
      Inr ''a robot on a table''"
  using get_caption_idempotent
    [where e = stub_env and url = "''robot.png''" and w = fresh_world
       and c = "''a robot on a table''"
       and w' = "snd (get_caption stub_env ''robot.png'' fresh_world)"
       and bytes = "''PNG1''" and d = Map.empty
       and ?url2.0 = "''./robot.png''" and ?bytes2.0 = "''PNG1''"]
    get_caption_idempotent
    [where e = stub_env and url = "''/doc/images/robot.png''"
       and w = "new_process (snd (get_caption stub_env ''robot.png'' fresh_world))"
       and c = "''a robot on a table''"
       and w' = "snd (get_caption stub_env ''robot.png'' fresh_world)"
       and bytes = "''PNG1''" and d = "[''9e107d9d'' \<mapsto> ''a robot on a table'']"
       and ?url2.0 = "''./robot.png''" and ?bytes2.0 = "''PNG1''"]
  by (simp add: stub_simps cache_coherent_def cache_lookup_def new_process_def)

text \<open>The claim as stated fails: the memo table is keyed by the argument, not by the
  resolved path, so a second spelling of the same path is not answered by it and the
  body runs again.\<close>

theorem memo_keyed_by_argument:
  "resolve_image_path stub_env ''./robot.png'' = resolve_image_path stub_env ''robot.png''
   \<and> caption_memo (snd (get_caption stub_env ''robot.png'' fresh_world)) ''robot.png''
        = Some ''a robot on a table''
   \<and> caption_memo (snd (get_caption stub_env ''robot.png'' fresh_world)) ''./robot.png''
        = None
   \<and> get_caption stub_env ''./robot.png'' (snd (get_caption stub_env ''robot.png'' fresh_world))
        \<noteq> (Inr ''a robot on a table'', snd (get_caption stub_env ''robot.png'' fresh_world))
   \<and> caption_memo (snd (get_caption stub_env ''./robot.png''
        (snd (get_caption stub_env ''robot.png'' fresh_world)))) ''./robot.png''
        = Some ''a robot on a table''"
proof -
  let ?w1 = "snd (get_caption stub_env ''robot.png'' fresh_world)"
  let ?r2 = "get_caption stub_env ''./robot.png'' ?w1"
  have a: "resolve_image_path stub_env ''./robot.png'' = resolve_image_path stub_env ''robot.png''"
    "caption_memo ?w1 ''robot.png'' = Some ''a robot on a table''"
    "caption_memo ?w1 ''./robot.png'' = None"
    "caption_memo (snd ?r2) ''./robot.png'' = Some ''a robot on a table''"
    by (simp_all add: stub_simps)
  have "?r2 \<noteq> (Inr ''a robot on a table'', ?w1)"
  proof
    assume "?r2 = (Inr ''a robot on a table'', ?w1)"
    then have "caption_memo (snd ?r2) ''./robot.png'' = caption_memo ?w1 ''./robot.png''"
      by simp
    then show False
      using a by simp
  qed
  then show ?thesis
    using a by simp
qed

section \<open>Properties of the image branch\<close>

lemma map_of_zip_inverse:
  "length xs = length ys \<Longrightarrow> distinct xs \<Longrightarrow> distinct ys \<Longrightarrow>
   map_of (zip xs ys) c = Some u \<Longrightarrow> map_of (zip ys xs) u = Some c"
proof (induction xs ys rule: list_induct2)
  case Nil
  then show ?case by simp
next
  case (Cons x xs y ys)
  show ?case
  proof (cases "c = x")
    case True
    then show ?thesis using Cons.prems by simp
  next
    case False
    then have m: "map_of (zip xs ys) c = Some u"
      using Cons.prems by simp
    then have "u \<in> set ys"
      by (meson map_of_SomeD set_zip_rightD)
    then have "u \<noteq> y"
      using Cons.prems by auto
    then show ?thesis
      using Cons.IH m Cons.prems by simp
  qed
qed

lemma ascii_letters:
  "length ascii_lowercase = length ascii_uppercase"
  "distinct ascii_lowercase" "distinct ascii_uppercase"
  "set ascii_lowercase \<inter> set ascii_uppercase = {}"
  by (simp_all add: ascii_lowercase_def ascii_uppercase_def)

lemma upper_char_cases:
  "c \<in> set ascii_lowercase \<and> py_upper_char c \<in> set ascii_uppercase
     \<and> py_lower_char (py_upper_char c) = c \<and> py_lower_char c = c
   \<or> c \<in> set ascii_uppercase \<and> py_upper_char c = c
     \<and> py_lower_char c \<in> set ascii_lowercase
   \<or> c \<notin> set ascii_lowercase \<and> c \<notin> set ascii_uppercase
     \<and> py_upper_char c = c \<and> py_lower_char c = c"
proof -
  note l = ascii_letters
  have none_low: "map_of (zip ascii_lowercase ascii_uppercase) x = None"
    if "x \<notin> set ascii_lowercase" for x
    using that l(1) by (simp add: map_of_zip_is_None)
  have none_up: "map_of (zip ascii_uppercase ascii_lowercase) x = None"
    if "x \<notin> set ascii_uppercase" for x
    using that l(1) by (simp add: map_of_zip_is_None)
  show ?thesis
  proof (cases "c \<in> set ascii_lowercase")
    case True
    then obtain u where u: "map_of (zip ascii_lowercase ascii_uppercase) c = Some u"
      using l(1) by (metis map_of_zip_is_Some)
    then have "u \<in> set ascii_uppercase"
      by (meson map_of_SomeD set_zip_rightD)
    moreover have "map_of (zip ascii_uppercase ascii_lowercase) u = Some c"
      using map_of_zip_inverse [OF l(1) l(2) l(3) u] .
    moreover have "c \<notin> set ascii_uppercase"
      using True l(4) by auto
    ultimately show ?thesis
      using True u none_up [of c] by (simp add: py_upper_char_def py_lower_char_def)
  next
    case False
    note nl = False
    show ?thesis
    proof (cases "c \<in> set ascii_uppercase")
      case True
      then obtain lo where lo: "map_of (zip ascii_uppercase ascii_lowercase) c = Some lo"
        using l(1) by (metis map_of_zip_is_Some)
      then have "lo \<in> set ascii_lowercase"
        by (meson map_of_SomeD set_zip_rightD)
      then show ?thesis
        using True nl lo none_low [of c] by (simp add: py_upper_char_def py_lower_char_def)
    next
      case False
      then show ?thesis
        using nl none_low [of c] none_up [of c] by (simp add: py_upper_char_def py_lower_char_def)
    qed
  qed
qed

lemma lower_upper_char: "py_lower_char (py_upper_char c) = py_lower_char c"
  using upper_char_cases [of c] by auto

lemma upper_char_not_lower: "py_upper_char c \<notin> set ascii_lowercase"
  using upper_char_cases [of c] ascii_letters(4) by auto

lemma lower_char_not_upper: "py_lower_char c \<notin> set ascii_uppercase"
  using upper_char_cases [of c] ascii_letters(4) by auto

lemma lower_lower_char: "py_lower_char (py_lower_char c) = py_lower_char c"
  using upper_char_cases [of "py_lower_char c"] lower_char_not_upper [of c] by auto

lemma filter_image_with_caption:
  "image_caption e content url w = (Inr caption, w1) \<Longrightarrow>
   filter_md2tex e (Image content url attrs) language w =
     (case image_formats e attrs of
        Inl err \<Rightarrow> (Inl err, w1)
      | Inr formats \<Rightarrow>
          (Inr (Some (RawInline (figure formats url caption (image_label attrs)) ''latex'')), w1))"
  by (simp add: filter_md2tex_def split: sum.splits)

text \<open>
  C4, as the code has it.  For ASCII caption content that is not empty after stripping
  and capitalizing, the filter uses this caption and leaves the state as it is (no
  cache access, no model invocation).  The caption has the letters of the stripped
  content: it differs from it in letter case only, its first character is no
  lower-case letter and no later character is an upper-case letter.
\<close>

theorem image_author_caption:
  assumes "is_ascii content" "py_capitalize (py_strip content) \<noteq> []"
  shows "image_caption e content url w = (Inr (py_capitalize (py_strip content)), w)
    \<and> snd (filter_md2tex e (Image content url attrs) language w) = w
    \<and> (ascii_sizes attrs \<longrightarrow>
         fst (filter_md2tex e (Image content url attrs) language w) =
           (case image_formats e attrs of
              Inl err \<Rightarrow> Inl err
            | Inr formats \<Rightarrow>
                Inr (Some (RawInline
                  (figure formats url (py_capitalize (py_strip content)) (image_label attrs))
                  ''latex''))))
    \<and> length (py_capitalize (py_strip content)) = length (py_strip content)
    \<and> map py_lower_char (py_capitalize (py_strip content)) = map py_lower_char (py_strip content)
    \<and> hd (py_capitalize (py_strip content)) \<notin> set ascii_lowercase
    \<and> set (tl (py_capitalize (py_strip content))) \<inter> set ascii_uppercase = {}"
proof -
  have ic: "image_caption e content url w = (Inr (py_capitalize (py_strip content)), w)"
    using assms by (simp add: image_caption_def Let_def)
  have flt: "filter_md2tex e (Image content url attrs) language w =
     (case image_formats e attrs of
        Inl err \<Rightarrow> (Inl err, w)
      | Inr formats \<Rightarrow>
          (Inr (Some (RawInline
             (figure formats url (py_capitalize (py_strip content)) (image_label attrs))
             ''latex'')), w))"
    using ic by (rule filter_image_with_caption)
  obtain c cs where s: "py_strip content = c # cs"
    using assms by (cases "py_strip content") (simp_all add: py_capitalize_def)
  have cap: "py_capitalize (py_strip content) = py_upper_char c # map py_lower_char cs"
    by (simp add: s py_capitalize_def)
  have "set (map py_lower_char cs) \<inter> set ascii_uppercase = {}"
    using lower_char_not_upper by auto
  then show ?thesis
    using ic flt cap s upper_char_not_lower [of c]
    by (simp add: lower_upper_char lower_lower_char split: sum.splits)
qed

theorem image_author_caption_witness:
  "is_ascii ''  our Robot  ''
   \<and> py_capitalize (py_strip ''  our Robot  '') \<noteq> []
   \<and> ascii_sizes Map.empty
   \<and> filter_md2tex stub_env (Image ''  our Robot  '' ''robot.png'' Map.empty)
        default_language fresh_world =
      (Inr (Some (RawInline (figure [] ''robot.png'' ''Our robot'' []) ''latex'')), fresh_world)
   \<and> length ''Our robot'' = length (py_strip ''  our Robot  '')"
  using image_author_caption
    [of "''  our Robot  ''" stub_env "''robot.png''" fresh_world Map.empty default_language]
  by (simp add: stub_simps is_ascii_def ascii_sizes_def)

text \<open>The claim as stated fails: characters after the first are changed.\<close>

theorem author_caption_rest_lowercased:
  "py_strip ''  our Robot  '' = ''our Robot''
   \<and> image_caption stub_env ''  our Robot  '' ''robot.png'' fresh_world =
        (Inr ''Our robot'', fresh_world)
   \<and> tl ''Our robot'' \<noteq> tl ''our Robot''"
  by (simp add: stub_simps)

section \<open>Properties of the image size options\<close>

lemma py_endswith_snoc: "py_endswith [c] (s @ [c])"
  by (simp add: py_endswith_def)

lemma py_removesuffix_snoc: "py_removesuffix [c] (s @ [c]) = s"
  by (simp add: py_removesuffix_def py_endswith_def)

lemma py_removesuffix_snoc': "py_removesuffix [c] (s @ t @ [c]) = s @ t"
  using py_removesuffix_snoc [of c "s @ t"] by simp

lemma digit_val_digit_char: "d < 10 \<Longrightarrow> digit_val (digit_char d) = Some d"
proof -
  assume "d < 10"
  then have "d \<in> {0, 1, 2, 3, 4, 5, 6, 7, 8, 9}" by auto
  then show ?thesis
    by (auto simp add: digit_val_def digit_char_def)
qed

lemma digits_value_snoc:
  "digits_value (s @ [c]) = 10 * digits_value s + (case digit_val c of Some d \<Rightarrow> d | None \<Rightarrow> 0)"
  by (simp add: digits_value_def)

lemma digits_value_nat_digits: "digits_value (nat_digits n) = n"
proof (induction n rule: nat_digits.induct)
  case (1 n)
  show ?case
  proof (cases "n < 10")
    case True
    then show ?thesis
      using digits_value_snoc [of "[]" "digit_char n"]
      by (simp add: nat_digits.simps [of n] digit_val_digit_char digits_value_def)
  next
    case False
    then show ?thesis
      using 1 by (simp add: nat_digits.simps [of n] digits_value_snoc digit_val_digit_char)
  qed
qed

lemma nat_digits_chars: "c \<in> set (nat_digits n) \<Longrightarrow> digit_val c \<noteq> None"
proof (induction n rule: nat_digits.induct)
  case (1 n)
  show ?case
  proof (cases "n < 10")
    case True
    then show ?thesis
      using "1.prems" by (auto simp add: nat_digits.simps [of n] digit_val_digit_char)
  next
    case False
    then show ?thesis
      using 1 by (auto simp add: nat_digits.simps [of n] digit_val_digit_char)
  qed
qed

lemma nat_digits_no_point: "CHR ''.'' \<notin> set (nat_digits n)" "CHR ''-'' \<notin> set (nat_digits n)"
  using nat_digits_chars [of "CHR ''.''" n] nat_digits_chars [of "CHR ''-''" n]
  by (auto simp add: digit_val_def)

lemma nat_digits_nonempty: "nat_digits n \<noteq> []"
  by (simp add: nat_digits.simps [of n])


lemma takeWhile_no_point:
  "CHR ''.'' \<notin> set xs \<Longrightarrow> takeWhile (\<lambda>c. c \<noteq> CHR ''.'') (xs @ CHR ''.'' # ys) = xs"
  by (induction xs) auto

lemma dropWhile_no_point:
  "CHR ''.'' \<notin> set xs \<Longrightarrow> dropWhile (\<lambda>c. c \<noteq> CHR ''.'') (xs @ CHR ''.'' # ys) = CHR ''.'' # ys"
  by (induction xs) auto

lemma hd_nat_digits: "hd (nat_digits n @ xs) \<noteq> CHR ''-''"
  using nat_digits_no_point(2) [of n] nat_digits_nonempty [of n]
  by (cases "nat_digits n") auto

lemma fraction_value:
  fixes m :: nat
  shows "real (digits_value
           (if m mod 10 = 0 then [digit_char (m mod 100 div 10)]
            else [digit_char (m mod 100 div 10), digit_char (m mod 10)]))
         / 10 ^ length (if m mod 10 = 0 then [digit_char (m mod 100 div 10)]
            else [digit_char (m mod 100 div 10), digit_char (m mod 10)])
         = real (m mod 100) / 100"
proof -
  define a where "a = m mod 100 div 10"
  define b where "b = m mod 10"
  have d1: "a < 10" and d2: "b < 10"
    unfolding a_def b_def by (simp_all add: div_less_iff_less_mult)
  have "m mod 100 mod 10 = m mod 10"
    by (simp add: mod_mod_cancel)
  moreover have "m mod 100 = 10 * (m mod 100 div 10) + m mod 100 mod 10"
    by simp
  ultimately have split: "m mod 100 = 10 * a + b"
    unfolding a_def b_def by simp
  have one: "digits_value [digit_char a] = a"
    using d1 digits_value_snoc [of "[]" "digit_char a"]
    by (simp add: digit_val_digit_char digits_value_def)
  have two: "digits_value [digit_char a, digit_char b] = 10 * a + b"
    using d2 one digits_value_snoc [of "[digit_char a]" "digit_char b"]
    by (simp add: digit_val_digit_char)
  have "real (digits_value (if b = 0 then [digit_char a] else [digit_char a, digit_char b]))
          / 10 ^ length (if b = 0 then [digit_char a] else [digit_char a, digit_char b])
        = real (m mod 100) / 100"
    using one two split by simp
  then show ?thesis
    unfolding a_def b_def .
qed

lemma decimal_value_unsigned:
  assumes "hd (nat_digits q @ ''.'' @ fp) \<noteq> CHR ''-''"
  shows "decimal_value (nat_digits q @ ''.'' @ fp) = real q + real (digits_value fp) / 10 ^ length fp"
  using assms nat_digits_nonempty [of q]
  by (simp add: decimal_value_def takeWhile_no_point dropWhile_no_point nat_digits_no_point
      digits_value_nat_digits)

lemma decimal_value_negative:
  "decimal_value (''-'' @ nat_digits q @ ''.'' @ fp) =
     - (real q + real (digits_value fp) / 10 ^ length fp)"
  by (simp add: decimal_value_def takeWhile_no_point dropWhile_no_point nat_digits_no_point
      digits_value_nat_digits)

lemma decimal_value_div100: "decimal_value (decimal_div100 n) = real_of_int n / 100"
proof -
  define m where "m = nat \<bar>n\<bar>"
  let ?fp = "if m mod 10 = 0 then [digit_char (m mod 100 div 10)]
         else [digit_char (m mod 100 div 10), digit_char (m mod 10)]"
  have v: "real (m div 100) + real (digits_value ?fp) / 10 ^ length ?fp = real m / 100"
  proof -
    have "real m = real (100 * (m div 100) + m mod 100)"
      by simp
    then have "real m / 100 = real (m div 100) + real (m mod 100) / 100"
      by (simp only: of_nat_add of_nat_mult add_divide_distrib)
    then show ?thesis
      using fraction_value [of m] by simp
  qed
  show ?thesis
  proof (cases "n < 0")
    case True
    then have "decimal_div100 n = ''-'' @ nat_digits (m div 100) @ ''.'' @ ?fp"
      by (simp add: decimal_div100_def m_def Let_def)
    then have "decimal_value (decimal_div100 n) = - (real m / 100)"
      using decimal_value_negative [of "m div 100" ?fp] v by simp
    then show ?thesis
      using True by (simp add: m_def)
  next
    case False
    then have "decimal_div100 n = nat_digits (m div 100) @ ''.'' @ ?fp"
      by (simp add: decimal_div100_def m_def Let_def)
    then have "decimal_value (decimal_div100 n) = real m / 100"
      using decimal_value_unsigned [OF hd_nat_digits, of "m div 100" ?fp] v by simp
    then show ?thesis
      using False by (simp add: m_def)
  qed
qed

lemma scaled_size_percent:
  "scaled_size e unit (s @ ''%'') =
     (case py_int s of
        None \<Rightarrow> Inl ValueError
      | Some n \<Rightarrow>
          (case py_repr_div100 e n of
             Inl err \<Rightarrow> Inl err
           | Inr r \<Rightarrow> Inr (r @ backslash @ unit)))"
  using py_endswith_snoc [of "CHR ''%''" s] py_removesuffix_snoc [of "CHR ''%''" s]
  by (simp add: scaled_size_def)

lemma py_repr_div100_small:
  "\<bar>n\<bar> < 10 ^ 15 \<Longrightarrow> py_repr_div100 e n = Inr (decimal_div100 n)"
proof -
  assume b: "\<bar>n\<bar> < 10 ^ 15"
  have "(10::int) ^ 15 < float_overflow_bound"
    by (simp add: float_overflow_bound_def)
  then show ?thesis
    using b by (simp add: py_repr_div100_def)
qed

lemma py_endswith_single: "py_endswith [c] s \<longleftrightarrow> s \<noteq> [] \<and> last s = c"
  by (cases s rule: rev_cases) (simp_all add: py_endswith_def)

lemma py_join_last:
  "xs \<noteq> [] \<Longrightarrow> last xs \<noteq> [] \<Longrightarrow>
   py_join sep xs \<noteq> [] \<and> last (py_join sep xs) = last (last xs)"
  by (induction sep xs rule: py_join.induct) auto

lemma image_formats_join:
  assumes "case attrs ''width'' of
             None \<Rightarrow> ws = []
           | Some v \<Rightarrow> scaled_size e ''linewidth'' (py_removesuffix '','' (py_strip v)) = Inr x
                        \<and> ws = [''width='' @ x]"
    and "case attrs ''height'' of
             None \<Rightarrow> hs = []
           | Some v \<Rightarrow> scaled_size e ''textheight'' (py_removesuffix '','' (py_strip v)) = Inr y
                        \<and> hs = [''height='' @ y]"
  shows "image_formats e attrs =
           Inr (if ws @ hs = [] then [] else ''['' @ py_join '','' (ws @ hs) @ '']'')"
proof (cases "attrs ''width''")
  case None
  note w = None
  show ?thesis
  proof (cases "attrs ''height''")
    case None
    then show ?thesis
      using assms w by (simp add: image_formats_def py_removesuffix_def py_endswith_def)
  next
    case (Some hv)
    then show ?thesis
      using assms w py_removesuffix_snoc' [of "CHR '',''" "''height=''" y]
      by (simp add: image_formats_def)
  qed
next
  case (Some wv)
  note w = Some
  show ?thesis
  proof (cases "attrs ''height''")
    case None
    then show ?thesis
      using assms w py_removesuffix_snoc' [of "CHR '',''" "''width=''" x]
      by (simp add: image_formats_def)
  next
    case (Some hv)
    then show ?thesis
      using assms w
        py_removesuffix_snoc' [of "CHR '',''" "''width='' @ x @ '',''" "''height='' @ y"]
      by (simp add: image_formats_def)
  qed
qed

lemma image_formats_error:
  "image_formats e attrs = Inl err \<longleftrightarrow>
     (\<exists>a. attrs ''width'' = Some a
         \<and> scaled_size e ''linewidth'' (py_removesuffix '','' (py_strip a)) = Inl err)
     \<or> ((\<forall>a. attrs ''width'' = Some a \<longrightarrow>
            \<not> isl (scaled_size e ''linewidth'' (py_removesuffix '','' (py_strip a))))
         \<and> (\<exists>a. attrs ''height'' = Some a
            \<and> scaled_size e ''textheight'' (py_removesuffix '','' (py_strip a)) = Inl err))"
  by (auto simp add: image_formats_def Let_def split: option.splits sum.splits)

text \<open>
  C8, as the code has it, for ASCII attribute values.  A size value (stripped of
  whitespace and of one trailing comma) that does not end in \<open>%\<close> passes through
  unchanged; one that ends in \<open>%\<close> after an integer literal \<open>n\<close> with \<open>|n| < 10^15\<close> becomes
  the decimal numeral of \<open>n / 100\<close> followed by the length macro; one that ends in \<open>%\<close>
  after anything that is no integer literal makes the filter raise ValueError.  The
  options that are present are joined by commas inside one pair of brackets; the list
  ends in a comma only when the last value itself does; with no size attribute there
  is no bracket group; and the filter raises in the size options exactly when the
  conversion of the width, or else of the height, raises.
\<close>

theorem image_size_options:
  "(\<not> py_endswith ''%'' v \<longrightarrow> scaled_size e unit v = Inr v)
   \<and> (is_ascii s \<and> py_int s = Some n \<and> \<bar>n\<bar> < 10 ^ 15 \<longrightarrow>
        scaled_size e unit (s @ ''%'') = Inr (decimal_div100 n @ backslash @ unit)
        \<and> decimal_value (decimal_div100 n) = real_of_int n / 100)
   \<and> (is_ascii s \<and> py_int s = None \<longrightarrow> scaled_size e unit (s @ ''%'') = Inl ValueError)
   \<and> (ascii_sizes attrs
       \<and> (case attrs ''width'' of
          None \<Rightarrow> ws = []
        | Some a \<Rightarrow> scaled_size e ''linewidth'' (py_removesuffix '','' (py_strip a)) = Inr x
                     \<and> ws = [''width='' @ x])
       \<and> (case attrs ''height'' of
          None \<Rightarrow> hs = []
        | Some a \<Rightarrow> scaled_size e ''textheight'' (py_removesuffix '','' (py_strip a)) = Inr y
                     \<and> hs = [''height='' @ y]) \<longrightarrow>
        image_formats e attrs =
          Inr (if ws @ hs = [] then [] else ''['' @ py_join '','' (ws @ hs) @ '']'')
        \<and> (ws @ hs \<noteq> [] \<and> \<not> py_endswith '','' (last (ws @ hs)) \<longrightarrow>
             \<not> py_endswith '','' (py_join '','' (ws @ hs)))
        \<and> (image_caption e content url w = (Inr caption, w1) \<longrightarrow>
             filter_md2tex e (Image content url attrs) language w =
               (Inr (Some (RawInline
                  (figure (if ws @ hs = [] then [] else ''['' @ py_join '','' (ws @ hs) @ '']'')
                     url caption (image_label attrs)) ''latex'')), w1)))
   \<and> (ascii_sizes attrs \<longrightarrow>
        (image_formats e attrs = Inl err \<longleftrightarrow>
          (\<exists>a. attrs ''width'' = Some a
              \<and> scaled_size e ''linewidth'' (py_removesuffix '','' (py_strip a)) = Inl err)
          \<or> ((\<forall>a. attrs ''width'' = Some a \<longrightarrow>
                 \<not> isl (scaled_size e ''linewidth'' (py_removesuffix '','' (py_strip a))))
              \<and> (\<exists>a. attrs ''height'' = Some a
                 \<and> scaled_size e ''textheight'' (py_removesuffix '','' (py_strip a)) = Inl err))))"
proof (intro conjI impI)
  show "scaled_size e unit v = Inr v" if "\<not> py_endswith ''%'' v"
    using that by (simp add: scaled_size_def)
  show "scaled_size e unit (s @ ''%'') = Inr (decimal_div100 n @ backslash @ unit)"
    if "is_ascii s \<and> py_int s = Some n \<and> \<bar>n\<bar> < 10 ^ 15"
    using that by (simp add: scaled_size_percent py_repr_div100_small)
  show "decimal_value (decimal_div100 n) = real_of_int n / 100"
    by (rule decimal_value_div100)
  show "scaled_size e unit (s @ ''%'') = Inl ValueError" if "is_ascii s \<and> py_int s = None"
    using that by (simp add: scaled_size_percent)
next
  assume h: "ascii_sizes attrs
       \<and> (case attrs ''width'' of
          None \<Rightarrow> ws = []
        | Some a \<Rightarrow> scaled_size e ''linewidth'' (py_removesuffix '','' (py_strip a)) = Inr x
                     \<and> ws = [''width='' @ x])
       \<and> (case attrs ''height'' of
          None \<Rightarrow> hs = []
        | Some a \<Rightarrow> scaled_size e ''textheight'' (py_removesuffix '','' (py_strip a)) = Inr y
                     \<and> hs = [''height='' @ y])"
  then show f: "image_formats e attrs =
          Inr (if ws @ hs = [] then [] else ''['' @ py_join '','' (ws @ hs) @ '']'')"
    using image_formats_join [where attrs = attrs and ws = ws and x = x and hs = hs and y = y]
    by blast
  show "filter_md2tex e (Image content url attrs) language w =
               (Inr (Some (RawInline
                  (figure (if ws @ hs = [] then [] else ''['' @ py_join '','' (ws @ hs) @ '']'')
                     url caption (image_label attrs)) ''latex'')), w1)"
    if "image_caption e content url w = (Inr caption, w1)"
    using filter_image_with_caption [OF that, of attrs language] f by simp
  have ne: "last (ws @ hs) \<noteq> []" if "ws @ hs \<noteq> []"
    using h that by (auto split: option.splits)
  show "\<not> py_endswith '','' (py_join '','' (ws @ hs))"
    if "ws @ hs \<noteq> [] \<and> \<not> py_endswith '','' (last (ws @ hs))"
    using that ne py_join_last [of "ws @ hs" "'',''"] by (simp add: py_endswith_single)
next
  show "image_formats e attrs = Inl err \<longleftrightarrow>
          (\<exists>a. attrs ''width'' = Some a
              \<and> scaled_size e ''linewidth'' (py_removesuffix '','' (py_strip a)) = Inl err)
          \<or> ((\<forall>a. attrs ''width'' = Some a \<longrightarrow>
                 \<not> isl (scaled_size e ''linewidth'' (py_removesuffix '','' (py_strip a))))
              \<and> (\<exists>a. attrs ''height'' = Some a
                 \<and> scaled_size e ''textheight'' (py_removesuffix '','' (py_strip a)) = Inl err))"
    by (rule image_formats_error)
qed

theorem image_size_options_witness:
  "\<not> py_endswith ''%'' ''3in'' \<and> scaled_size stub_env ''textheight'' ''3in'' = Inr ''3in''
   \<and> is_ascii ''50'' \<and> py_int ''50'' = Some 50
   \<and> scaled_size stub_env ''linewidth'' ''50%'' = Inr (''0.5'' @ backslash @ ''linewidth'')
   \<and> decimal_value ''0.5'' = 50 / 100
   \<and> is_ascii ''12.5'' \<and> py_int ''12.5'' = None
   \<and> scaled_size stub_env ''linewidth'' ''12.5%'' = Inl ValueError
   \<and> ascii_sizes [''width'' \<mapsto> ''50%,'', ''height'' \<mapsto> '' 3in '']
   \<and> image_formats stub_env [''width'' \<mapsto> ''50%,'', ''height'' \<mapsto> '' 3in ''] =
        Inr (''[width=0.5'' @ backslash @ ''linewidth,height=3in]'')
   \<and> \<not> py_endswith '','' (''width=0.5'' @ backslash @ ''linewidth,height=3in'')
   \<and> filter_md2tex stub_env
        (Image ''Robot'' ''robot.png'' [''width'' \<mapsto> ''50%,'', ''height'' \<mapsto> '' 3in ''])
        default_language fresh_world =
        (Inr (Some (RawInline
           (figure (''[width=0.5'' @ backslash @ ''linewidth,height=3in]'')
              ''robot.png'' ''Robot'' []) ''latex'')), fresh_world)
   \<and> ascii_sizes Map.empty \<and> image_formats stub_env Map.empty = Inr []
   \<and> image_formats stub_env [''width'' \<mapsto> ''50%,'', ''height'' \<mapsto> '' 3in '']
        \<noteq> Inl ValueError"
proof -
  have p: "decimal_div100 50 = ''0.5''" "py_int ''50'' = Some 50" "py_int ''12.5'' = None"
    by (simp_all add: decimal_div100_def nat_digits.simps digit_char_def py_int_def
        int_isspace_def int_max_str_digits_def digit_val_def)
  have r: "py_repr_div100 stub_env 50 = Inr ''0.5''"
    using py_repr_div100_small [of 50 stub_env] p by simp
  have s: "scaled_size stub_env ''textheight'' (py_removesuffix '','' (py_strip '' 3in ''))
       = Inr ''3in''"
    "scaled_size stub_env ''linewidth'' (py_removesuffix '','' (py_strip ''50%,''))
       = Inr (''0.5'' @ backslash @ ''linewidth'')"
    "\<not> py_endswith ''%'' ''3in''"
    by (simp_all add: scaled_size_def py_removesuffix_def py_endswith_def py_strip_def
        py_isspace_def p r)
  have c: "image_caption stub_env ''Robot'' ''robot.png'' fresh_world = (Inr ''Robot'', fresh_world)"
    by (simp add: stub_simps)
  have a: "is_ascii ''50''" "is_ascii ''12.5''" "ascii_sizes Map.empty"
    "ascii_sizes [''width'' \<mapsto> ''50%,'', ''height'' \<mapsto> '' 3in '']"
    by (simp_all add: is_ascii_def ascii_sizes_def)
  show ?thesis
    using image_size_options
      [where v = "''3in''" and unit = "''textheight''" and s = "''50''" and n = 50
         and attrs = "[''width'' \<mapsto> ''50%,'', ''height'' \<mapsto> '' 3in '']"
         and ws = "[''width='' @ ''0.5'' @ backslash @ ''linewidth'']"
         and x = "''0.5'' @ backslash @ ''linewidth''"
         and hs = "[''height=3in'']" and y = "''3in''" and e = stub_env
         and content = "''Robot''" and url = "''robot.png''" and w = fresh_world
         and caption = "''Robot''" and ?w1.0 = fresh_world and language = default_language
         and err = ValueError]
      image_size_options
      [where v = "''3in''" and unit = "''linewidth''" and s = "''12.5''" and n = 0
         and attrs = Map.empty and ws = "[]" and x = "[]" and hs = "[]" and y = "[]"
         and e = stub_env and content = "''Robot''" and url = "''robot.png''"
         and w = fresh_world and caption = "''Robot''" and ?w1.0 = fresh_world
         and language = default_language and err = ValueError]
      image_size_options
      [where v = "''3in''" and unit = "''linewidth''" and s = "''50''" and n = 50
         and attrs = Map.empty and ws = "[]" and x = "[]" and hs = "[]" and y = "[]"
         and e = stub_env and content = "''Robot''" and url = "''robot.png''"
         and w = fresh_world and caption = "''Robot''" and ?w1.0 = fresh_world
         and language = default_language and err = ValueError]
    by (simp add: p s c a image_label_def py_endswith_def backslash_def)
qed

text \<open>The claim as stated fails: a percentage that is not an integer literal is not
  rewritten, the filter raises; and a value that keeps a comma after the stripping
  leaves a comma at the end of the list.\<close>

theorem fractional_percent_raises:
  "filter_md2tex stub_env (Image ''Robot'' ''robot.png'' [''width'' \<mapsto> ''12.5%''])
      default_language fresh_world = (Inl ValueError, fresh_world)
   \<and> image_formats stub_env [''height'' \<mapsto> ''3in,,''] = Inr ''[height=3in,]''
   \<and> py_endswith '','' ''height=3in,''"
  by (simp add: stub_simps scaled_size_def py_int_def int_isspace_def int_max_str_digits_def
      digit_val_def)

end
